theory Spec2Isabelle
  imports Complex_Main
begin

section \<open>The image reader of CNTK: a shallow embedding of ImageReader.cpp\<close>

text \<open>
  Conventions of the embedding.
  \<^item> \<open>size_t\<close> values (dimensions, positions, sizes) are \<open>nat\<close>; C++ \<open>int\<close> values are
    \<open>int\<close>. The wrap-around is written out where the source depends on it: the
    product \<open>width * height * channels\<close>, which the source itself tests for overflow,
    is taken modulo \<open>2 ^ 64\<close>, and a cast of a \<open>size_t\<close> to \<open>int\<close> is
    \<open>static_cast_int\<close>. Positions in the manifest and in the buffers are bounded by
    the sizes of allocated vectors and do not wrap.
  \<^item> \<open>double\<close> and \<open>ElemType\<close> values are \<open>real\<close>: rounding is not modelled.
  \<^item> Every \<open>RuntimeError\<close>, every exception of the standard library or of OpenCV and
    every failed \<open>assert\<close> is a value of type \<open>error\<close>; a method returns
    \<open>error + result\<close>. A read or write outside a buffer is \<open>UndefinedBehaviour\<close>.
  \<^item> \<open>assert\<close> is compiled out under NDEBUG: the flag \<open>debug\<close> of the environment says
    whether assertions are checked.
  \<^item> What the source takes from other components (the file system, the image decoder,
    the generator's output function, the interpolation of pixel values, the conversions
    of the configuration layer) is a field of the environment record \<open>env\<close>.
\<close>

subsection \<open>Errors\<close>

datatype error =
    InvalidCropRatio
  | InvalidCropType string
  | InvalidJitterType string
  | JitterNotImplemented
  | InvalidImageDimensions
  | CouldNotOpen string
  | InvalidDataInFile string
  | MissingParameter string
  | InvalidMapFormat string nat
  | OnlyAutoNoneSupported
  | StdInvalidArgument
  | StdOutOfRange
  | CvException
  | AssertionFailed
  | UndefinedBehaviour

subsection \<open>Strings\<close>

definition tolower :: "char \<Rightarrow> char" where
  "tolower c = (let n = (of_char c :: nat) in if 65 \<le> n \<and> n \<le> 90 then char_of (n + 32) else c)"

text \<open>
  \<open>AreEqual(s1, s2)\<close> is \<open>std::equal\<close> over the range of \<open>s1\<close> only: it compares the
  characters of \<open>s1\<close> with the first \<open>|s1|\<close> characters of \<open>s2\<close>, ignoring case. When \<open>s1\<close>
  is longer than \<open>s2\<close> the comparison reaches the terminator of \<open>s2\<close>, which differs
  from every character of a configuration string: the result is false.
\<close>

definition AreEqual :: "string \<Rightarrow> string \<Rightarrow> bool" where
  "AreEqual s1 s2 =
     (length s1 \<le> length s2 \<and> map tolower s1 = map tolower (take (length s1) s2))"

text \<open>
  \<open>std::getline(stream, token, delim)\<close> on the remaining content of a stream: it fails
  when nothing is left; otherwise the token is the text before the first delimiter and
  the delimiter is consumed.
\<close>

definition getline :: "char \<Rightarrow> string \<Rightarrow> (string \<times> string) option" where
  "getline d s =
     (if s = [] then None
      else Some (takeWhile (\<lambda>c. c \<noteq> d) s, drop 1 (dropWhile (\<lambda>c. c \<noteq> d) s)))"

subsection \<open>Random generators and the generator pool\<close>

text \<open>
  A \<open>std::mt19937\<close> is the seed it was constructed with and the number of values drawn
  so far; the output function of the generator is the field \<open>mt_out\<close> of the environment.
\<close>

record mt19937 =
  mt_seed :: nat
  mt_pos :: nat

definition make_mt19937 :: "nat \<Rightarrow> mt19937" where
  "make_mt19937 seed = \<lparr>mt_seed = seed, mt_pos = 0\<rparr>"

definition mt_next :: "(nat \<Rightarrow> nat \<Rightarrow> nat) \<Rightarrow> mt19937 \<Rightarrow> nat \<times> mt19937" where
  "mt_next out g = (out (mt_seed g) (mt_pos g) mod 2 ^ 32, g\<lparr>mt_pos := mt_pos g + 1\<rparr>)"

text \<open>
  The distributions of the standard library, by their contracts:
  \<open>uniform_int_distribution(a, b)\<close> gives a value of the closed range \<open>[a, b]\<close> and
  requires \<open>a \<le> b\<close>; \<open>uniform_real_distribution(a, b)\<close> gives \<open>a + (b - a) * u\<close> with
  \<open>u\<close> in \<open>[0, 1)\<close>; \<open>bernoulli_distribution()\<close> is true with probability one half.
\<close>

definition UniIntT :: "(nat \<Rightarrow> nat \<Rightarrow> nat) \<Rightarrow> int \<Rightarrow> int \<Rightarrow> mt19937 \<Rightarrow> error + (int \<times> mt19937)" where
  "UniIntT out a b g =
     (if b < a then Inl UndefinedBehaviour
      else (case mt_next out g of (r, g') \<Rightarrow> Inr (a + int r mod (b - a + 1), g')))"

definition UniRealT :: "(nat \<Rightarrow> nat \<Rightarrow> nat) \<Rightarrow> real \<Rightarrow> real \<Rightarrow> mt19937 \<Rightarrow> real \<times> mt19937" where
  "UniRealT out a b g =
     (case mt_next out g of (r, g') \<Rightarrow> (a + (b - a) * (real r / 2 ^ 32), g'))"

definition bernoulli :: "(nat \<Rightarrow> nat \<Rightarrow> nat) \<Rightarrow> mt19937 \<Rightarrow> bool \<times> mt19937" where
  "bernoulli out g = (case mt_next out g of (r, g') \<Rightarrow> (r < 2 ^ 31, g'))"

text \<open>
  Modelled from the spec: \<open>conc_stack\<close>, whose header is not among the sources, is the
  pool of generators of the specification. \<open>pop_or_create\<close> pops an existing element
  or, on an empty pool, constructs a new one with the factory it is given; \<open>push\<close>
  returns an element to the pool.
\<close>

type_synonym rng_pool = "mt19937 list"

definition pop_or_create :: "nat \<Rightarrow> rng_pool \<Rightarrow> mt19937 \<times> rng_pool" where
  "pop_or_create seed pool =
     (case pool of [] \<Rightarrow> (make_mt19937 seed, []) | g # rest \<Rightarrow> (g, rest))"

definition push :: "mt19937 \<Rightarrow> rng_pool \<Rightarrow> rng_pool" where
  "push g pool = g # pool"

subsection \<open>Images\<close>

text \<open>
  A \<open>cv::Mat\<close>: its size, its channel count, the depth of its elements and its
  elements in row-major order (\<open>rows * cols * channels\<close> of them).
\<close>

datatype depth = CV_8U | CV_32F | CV_64F

record Mat =
  rows :: int
  cols :: int
  channels :: int
  mdepth :: depth
  mdata :: "real list"

record Rect =
  rx :: int
  ry :: int
  rwidth :: int
  rheight :: int

text \<open>C++ integer division truncates towards zero.\<close>

definition tdiv :: "int \<Rightarrow> int \<Rightarrow> int" where
  "tdiv a b = sgn a * sgn b * (\<bar>a\<bar> div \<bar>b\<bar>)"

text \<open>\<open>static_cast<int>\<close> of a double truncates towards zero.\<close>

definition trunc_int :: "real \<Rightarrow> int" where
  "trunc_int x = (if 0 \<le> x then \<lfloor>x\<rfloor> else \<lceil>x\<rceil>)"

text \<open>\<open>static_cast<int>\<close> of a \<open>size_t\<close> keeps the low 32 bits, read as two's complement.\<close>

definition static_cast_int :: "nat \<Rightarrow> int" where
  "static_cast_int n =
     (let m = int n mod 2 ^ 32 in if m < 2 ^ 31 then m else m - 2 ^ 32)"

text \<open>
  \<open>mat(rect)\<close>: OpenCV requires the rectangle to lie inside the image and raises an
  exception otherwise. The result holds the elements of the rectangle, row by row.
\<close>

definition mat_roi :: "Mat \<Rightarrow> Rect \<Rightarrow> error + Mat" where
  "mat_roi m r =
     (if 0 \<le> rx r \<and> 0 \<le> rwidth r \<and> rx r + rwidth r \<le> cols m \<and>
         0 \<le> ry r \<and> 0 \<le> rheight r \<and> ry r + rheight r \<le> rows m
      then Inr (m\<lparr>rows := rheight r, cols := rwidth r,
                  mdata := concat (map (\<lambda>y. take (nat (rwidth r * channels m))
                                           (drop (nat ((int y * cols m + rx r) * channels m)) (mdata m)))
                                    [nat (ry r) ..< nat (ry r + rheight r)])\<rparr>)
      else Inl CvException)"

text \<open>\<open>cv::flip(mat, mat, 1)\<close>: every row is mirrored, pixel by pixel.\<close>

definition flip_h :: "Mat \<Rightarrow> Mat" where
  "flip_h m =
     m\<lparr>mdata := concat (map (\<lambda>y. concat (rev (map (\<lambda>x. take (nat (channels m))
                                    (drop ((y * nat (cols m) + x) * nat (channels m)) (mdata m)))
                                  [0 ..< nat (cols m)])))
                        [0 ..< nat (rows m)])\<rparr>"

subsection \<open>The environment and the configuration\<close>

text \<open>
  Modelled from the spec: \<open>ConfigParameters\<close>, whose header is not among the sources,
  supplies key/value parameters. A configuration section maps keys to strings.
  \<open>config(key, default)\<close> is \<open>cfg_get\<close>, \<open>config(key)\<close> is \<open>cfg_req\<close> (the configuration
  layer raises when the key is missing), \<open>config.ExistsCurrent(key)\<close> is
  \<open>ExistsCurrent\<close>.
\<close>

type_synonym config = "string \<rightharpoonup> string"

definition cfg_get :: "config \<Rightarrow> string \<Rightarrow> string \<Rightarrow> string" where
  "cfg_get cfg key dflt = (case cfg key of None \<Rightarrow> dflt | Some v \<Rightarrow> v)"

definition cfg_req :: "config \<Rightarrow> string \<Rightarrow> error + string" where
  "cfg_req cfg key = (case cfg key of None \<Rightarrow> Inl (MissingParameter key) | Some v \<Rightarrow> Inr v)"

definition ExistsCurrent :: "config \<Rightarrow> string \<Rightarrow> bool" where
  "ExistsCurrent cfg key = (cfg key \<noteq> None)"

record env =
  debug :: bool
  requestDataSize :: nat
  mt_out :: "nat \<Rightarrow> nat \<Rightarrow> nat"
  stof :: "string \<Rightarrow> error + real"
  to_size_t :: "string \<Rightarrow> error + nat"
  file_system :: "string \<rightharpoonup> string"
  mean_store :: "string \<rightharpoonup> (Mat \<times> int \<times> int \<times> int)"
  imread :: "string \<Rightarrow> Mat"
  resize_data :: "int \<Rightarrow> Mat \<Rightarrow> int \<Rightarrow> int \<Rightarrow> real list"
  subtract_scalar :: "Mat \<Rightarrow> Mat \<Rightarrow> error + Mat"

text \<open>
  \<open>std::stoi\<close>: skips leading white space, reads an optional sign and the longest run of
  decimal digits; raises \<open>invalid_argument\<close> when there is no digit and \<open>out_of_range\<close>
  when the value does not fit a 32-bit \<open>int\<close>. Text after the digits is ignored.
\<close>

definition isspace :: "char \<Rightarrow> bool" where
  "isspace c = ((of_char c :: nat) = 32 \<or> (9 \<le> (of_char c :: nat) \<and> (of_char c :: nat) \<le> 13))"

definition isdigit :: "char \<Rightarrow> bool" where
  "isdigit c = (48 \<le> (of_char c :: nat) \<and> (of_char c :: nat) \<le> 57)"

definition digits_value :: "string \<Rightarrow> int" where
  "digits_value ds = foldl (\<lambda>a c. 10 * a + (int (of_char c) - 48)) 0 ds"

definition stoi :: "string \<Rightarrow> error + int" where
  "stoi s =
     (let s1 = dropWhile isspace s;
          neg = (s1 \<noteq> [] \<and> hd s1 = CHR ''-'');
          s2 = (if s1 \<noteq> [] \<and> (hd s1 = CHR ''-'' \<or> hd s1 = CHR ''+'') then tl s1 else s1);
          ds = takeWhile isdigit s2;
          v = (if neg then - digits_value ds else digits_value ds)
      in if ds = [] then Inl StdInvalidArgument
         else if v < - (2 ^ 31) \<or> 2 ^ 31 \<le> v then Inl StdOutOfRange
         else Inr v)"

subsection \<open>CropTransform\<close>

datatype CropType = Center | Random

datatype RatioJitterType = JNone | UniRatio | UniLength | UniArea

record CropTransform =
  c_seed :: nat
  c_rngs :: rng_pool
  cropType :: CropType
  cropRatioMin :: real
  cropRatioMax :: real
  jitterType :: RatioJitterType
  hFlip :: bool

definition ParseCropType :: "string \<Rightarrow> error + CropType" where
  "ParseCropType src =
     (if src = [] \<or> AreEqual src ''center'' then Inr Center
      else if AreEqual src ''random'' then Inr Random
      else Inl (InvalidCropType src))"

definition ParseJitterType :: "string \<Rightarrow> error + RatioJitterType" where
  "ParseJitterType src =
     (if src = [] \<or> AreEqual src ''none'' then Inr JNone
      else if AreEqual src ''uniratio'' then Inr UniRatio
      else if AreEqual src ''unilength'' then Inr UniLength
      else if AreEqual src ''uniarea'' then Inr UniArea
      else Inl (InvalidJitterType src))"

text \<open>
  The ratio token \<open>min[:max]\<close>. When the text is empty the first \<open>getline\<close> fails and
  both fields keep the values the object held.
\<close>

definition parse_cropRatio :: "env \<Rightarrow> string \<Rightarrow> CropTransform \<Rightarrow> error + CropTransform" where
  "parse_cropRatio e ss t =
     (case getline CHR '':'' ss of
        None \<Rightarrow> Inr t
      | Some (token, rest) \<Rightarrow>
          (case stof e token of
             Inl err \<Rightarrow> Inl err
           | Inr lo \<Rightarrow>
               (case getline CHR '':'' rest of
                  None \<Rightarrow> Inr (t\<lparr>cropRatioMin := lo, cropRatioMax := lo\<rparr>)
                | Some (token2, _) \<Rightarrow>
                    (case stof e token2 of
                       Inl err \<Rightarrow> Inl err
                     | Inr hi \<Rightarrow> Inr (t\<lparr>cropRatioMin := lo, cropRatioMax := hi\<rparr>)))))"

definition CropTransform_Init :: "env \<Rightarrow> config \<Rightarrow> CropTransform \<Rightarrow> error + CropTransform" where
  "CropTransform_Init e cfg t =
     (case ParseCropType (cfg_get cfg ''cropType'' []) of
        Inl err \<Rightarrow> Inl err
      | Inr ct \<Rightarrow>
     (case parse_cropRatio e (cfg_get cfg ''cropRatio'' ''1'') (t\<lparr>cropType := ct\<rparr>) of
        Inl err \<Rightarrow> Inl err
      | Inr t1 \<Rightarrow>
     if \<not> (0 < cropRatioMin t1 \<and> cropRatioMin t1 \<le> 1) \<or>
        \<not> (0 < cropRatioMax t1 \<and> cropRatioMax t1 \<le> 1) \<or>
        cropRatioMin t1 > cropRatioMax t1
     then Inl InvalidCropRatio
     else
     (case ParseJitterType (cfg_get cfg ''jitterType'' []) of
        Inl err \<Rightarrow> Inl err
      | Inr jt \<Rightarrow>
     if \<not> ExistsCurrent cfg ''hflip''
     then Inr (t1\<lparr>jitterType := jt, hFlip := (ct = Random)\<rparr>)
     else
     (case stoi (cfg_get cfg ''hflip'' []) of
        Inl err \<Rightarrow> Inl err
      | Inr v \<Rightarrow> Inr (t1\<lparr>jitterType := jt, hFlip := (v \<noteq> 0)\<rparr>)))))"

definition GetCropRect ::
  "env \<Rightarrow> CropType \<Rightarrow> int \<Rightarrow> int \<Rightarrow> real \<Rightarrow> mt19937 \<Rightarrow> error + (Rect \<times> mt19937)" where
  "GetCropRect e type crow ccol cropRatio rng =
     (if debug e \<and> \<not> (crow > 0 \<and> ccol > 0 \<and> 0 < cropRatio \<and> cropRatio \<le> 1)
      then Inl AssertionFailed
      else
        let cropSize = trunc_int (real_of_int (min crow ccol) * cropRatio) in
        (case (case type of
                 Center \<Rightarrow> Inr ((tdiv (ccol - cropSize) 2, tdiv (crow - cropSize) 2), rng)
               | Random \<Rightarrow>
                   (case UniIntT (mt_out e) 0 (ccol - cropSize) rng of
                      Inl err \<Rightarrow> Inl err
                    | Inr (xOff, rng1) \<Rightarrow>
                        (case UniIntT (mt_out e) 0 (crow - cropSize) rng1 of
                           Inl err \<Rightarrow> Inl err
                         | Inr (yOff, rng2) \<Rightarrow> Inr ((xOff, yOff), rng2)))) of
           Inl err \<Rightarrow> Inl err
         | Inr ((xOff, yOff), rng') \<Rightarrow>
             if debug e \<and> \<not> (0 \<le> xOff \<and> xOff \<le> ccol - cropSize \<and>
                              0 \<le> yOff \<and> yOff \<le> crow - cropSize)
             then Inl AssertionFailed
             else Inr (\<lparr>rx = xOff, ry = yOff, rwidth = cropSize, rheight = cropSize\<rparr>, rng')))"

text \<open>The ratio drawn by \<open>Apply\<close>, by jitter kind.\<close>

definition draw_ratio :: "env \<Rightarrow> CropTransform \<Rightarrow> mt19937 \<Rightarrow> error + (real \<times> mt19937)" where
  "draw_ratio e t rng =
     (case jitterType t of
        JNone \<Rightarrow> Inr (cropRatioMin t, rng)
      | UniRatio \<Rightarrow>
          (case UniRealT (mt_out e) (cropRatioMin t) (cropRatioMax t) rng of
             (ratio, rng') \<Rightarrow>
               if debug e \<and> \<not> (cropRatioMin t \<le> ratio \<and> ratio < cropRatioMax t)
               then Inl AssertionFailed else Inr (ratio, rng'))
      | UniLength \<Rightarrow> Inl JitterNotImplemented
      | UniArea \<Rightarrow> Inl JitterNotImplemented)"

definition CropTransform_Apply :: "env \<Rightarrow> CropTransform \<Rightarrow> Mat \<Rightarrow> error + (CropTransform \<times> Mat)" where
  "CropTransform_Apply e t mat =
     (case pop_or_create (c_seed t) (c_rngs t) of (rng, pool) \<Rightarrow>
     (case draw_ratio e t rng of
        Inl err \<Rightarrow> Inl err
      | Inr (ratio, rng1) \<Rightarrow>
     (case GetCropRect e (cropType t) (rows mat) (cols mat) ratio rng1 of
        Inl err \<Rightarrow> Inl err
      | Inr (rect, rng2) \<Rightarrow>
     (case mat_roi mat rect of
        Inl err \<Rightarrow> Inl err
      | Inr mat1 \<Rightarrow>
          if hFlip t
          then (case bernoulli (mt_out e) rng2 of
                  (b, rng3) \<Rightarrow>
                    Inr (t\<lparr>c_rngs := push rng3 pool\<rparr>, if b then flip_h mat1 else mat1))
          else Inr (t\<lparr>c_rngs := push rng2 pool\<rparr>, mat1)))))"

subsection \<open>ScaleTransform\<close>

text \<open>Every token of a text: \<open>std::getline\<close> repeated until it fails.\<close>

function getline_all :: "char \<Rightarrow> string \<Rightarrow> string list" where
  "getline_all d s =
     (case getline d s of None \<Rightarrow> [] | Some (token, rest) \<Rightarrow> token # getline_all d rest)"
  by pat_completeness auto
termination
proof (relation "measure (\<lambda>(d, s). length s)")
  show "wf (measure (\<lambda>(d, s). length s))" by simp
next
  fix d :: char and s :: string and x2 :: "string \<times> string" and token rest :: string
  assume "getline d s = Some x2" and "(token, rest) = x2"
  then have "s \<noteq> []" and "rest = drop 1 (dropWhile (\<lambda>c. c \<noteq> d) s)"
    by (auto simp: getline_def split: if_splits)
  then have "length rest < length s"
    using length_dropWhile_le [of "\<lambda>c. c \<noteq> d" s] by (cases s) auto
  then show "((d, rest), (d, s)) \<in> measure (\<lambda>(d, s). length s)" by simp
qed

record ScaleTransform =
  s_seed :: nat
  s_rngs :: rng_pool
  s_dataType :: depth
  s_interp :: "int list"
  imgWidth :: nat
  imgHeight :: nat
  imgChannels :: nat

text \<open>The interpolation methods of OpenCV by name: the table filled by the constructor.\<close>

definition interpMap :: "string \<rightharpoonup> int" where
  "interpMap = [''nearest'' \<mapsto> 0, ''linear'' \<mapsto> 1, ''cubic'' \<mapsto> 2, ''lanczos'' \<mapsto> 4]"

definition parse_interpolations :: "string \<Rightarrow> int list" where
  "parse_interpolations ss =
     (let found = concat (map (\<lambda>token. case interpMap (map tolower token) of
                                          None \<Rightarrow> [] | Some v \<Rightarrow> [v])
                              (getline_all CHR '':'' ss))
      in if found = [] then [1] else found)"

text \<open>A required key converted to \<open>size_t\<close> by the configuration layer.\<close>

definition cfg_size_t :: "env \<Rightarrow> config \<Rightarrow> string \<Rightarrow> error + nat" where
  "cfg_size_t e cfg key = (case cfg_req cfg key of Inl err \<Rightarrow> Inl err | Inr v \<Rightarrow> to_size_t e v)"

definition ScaleTransform_Init :: "env \<Rightarrow> config \<Rightarrow> ScaleTransform \<Rightarrow> error + ScaleTransform" where
  "ScaleTransform_Init e cfg t =
     (case cfg_size_t e cfg ''width'' of Inl err \<Rightarrow> Inl err | Inr w \<Rightarrow>
     (case cfg_size_t e cfg ''height'' of Inl err \<Rightarrow> Inl err | Inr h \<Rightarrow>
     (case cfg_size_t e cfg ''channels'' of Inl err \<Rightarrow> Inl err | Inr c \<Rightarrow>
        let cfeat = (w * h * c) mod 2 ^ 64 in
        if cfeat = 0 \<or> cfeat > (2 ^ 64 - 1) div 2 then Inl InvalidImageDimensions
        else Inr (t\<lparr>imgWidth := w, imgHeight := h, imgChannels := c,
                    s_interp := parse_interpolations (cfg_get cfg ''interpolations'' [])\<rparr>))))"

text \<open>
  \<open>cv::resize(src, dst, dsize, 0, 0, interpolation)\<close>: OpenCV raises an exception on an
  empty source and on an empty target size; the result has the size \<open>dsize\<close> and the
  type (depth and channel count) of the source. The interpolated values are
  \<open>resize_data\<close> of the environment.
\<close>

definition cv_resize :: "env \<Rightarrow> Mat \<Rightarrow> int \<Rightarrow> int \<Rightarrow> int \<Rightarrow> error + Mat" where
  "cv_resize e m w h interpolation =
     (if rows m \<le> 0 \<or> cols m \<le> 0 \<or> w \<le> 0 \<or> h \<le> 0 then Inl CvException
      else Inr (m\<lparr>rows := h, cols := w, mdata := resize_data e interpolation m w h\<rparr>))"

definition ScaleTransform_Apply :: "env \<Rightarrow> ScaleTransform \<Rightarrow> Mat \<Rightarrow> error + (ScaleTransform \<times> Mat)" where
  "ScaleTransform_Apply e t mat =
     (let mat1 = (if mdepth mat \<noteq> s_dataType t \<or> channels mat \<noteq> int (imgChannels t)
                  then mat\<lparr>mdepth := s_dataType t\<rparr> else mat)
      in
      (case pop_or_create (s_seed t) (s_rngs t) of (rng, pool) \<Rightarrow>
       if debug e \<and> \<not> (length (s_interp t) > 0) then Inl AssertionFailed
       else
       (case UniIntT (mt_out e) 0 (static_cast_int (length (s_interp t)) - 1) rng of
          Inl err \<Rightarrow> Inl err
        | Inr (k, rng1) \<Rightarrow>
       (case cv_resize e mat1 (static_cast_int (imgWidth t)) (static_cast_int (imgHeight t))
                       (s_interp t ! nat k) of
          Inl err \<Rightarrow> Inl err
        | Inr mat2 \<Rightarrow> Inr (t\<lparr>s_rngs := push rng1 pool\<rparr>, mat2)))))"

subsection \<open>MeanTransform\<close>

record MeanTransform =
  meanImg :: Mat

text \<open>\<open>Mat::release\<close> drops the elements and the size; the type stays.\<close>

definition release :: "Mat \<Rightarrow> Mat" where
  "release m = m\<lparr>rows := 0, cols := 0, mdata := []\<rparr>"

text \<open>
  \<open>Mat::reshape(cn, rows)\<close>: the same elements with \<open>cn\<close> channels and \<open>rows\<close> rows
  (0 keeps the old value); OpenCV raises an exception when the elements do not divide
  evenly.
\<close>

definition reshape :: "Mat \<Rightarrow> int \<Rightarrow> int \<Rightarrow> error + Mat" where
  "reshape m cn r =
     (let cn' = (if cn = 0 then channels m else cn);
          r' = (if r = 0 then rows m else r);
          total = channels m * rows m * cols m
      in if cn' \<le> 0 \<or> 512 < cn' \<or> r' \<le> 0 \<or> total mod (cn' * r') \<noteq> 0 then Inl CvException
         else Inr (m\<lparr>channels := cn', rows := r', cols := total div (cn' * r')\<rparr>))"

definition MeanTransform_Init :: "env \<Rightarrow> config \<Rightarrow> MeanTransform \<Rightarrow> error + MeanTransform" where
  "MeanTransform_Init e cfg t =
     (let meanFile = cfg_get cfg ''meanFile'' [] in
      if meanFile = [] then Inr (t\<lparr>meanImg := release (meanImg t)\<rparr>)
      else
        (case mean_store e meanFile of
           None \<Rightarrow> Inl (CouldNotOpen meanFile)
         | Some (img, cchan, crow, ccol) \<Rightarrow>
             if cchan * crow * ccol \<noteq> channels img * rows img * cols img
             then Inl (InvalidDataInFile meanFile)
             else (case reshape img cchan crow of
                     Inl err \<Rightarrow> Inl err
                   | Inr img' \<Rightarrow> Inr (t\<lparr>meanImg := img'\<rparr>))))"

text \<open>
  \<open>a - b\<close> on two images is \<open>cv::subtract\<close>: for operands of the same size and the same
  type the elementwise difference. For operands of different types (channel count or
  depth) OpenCV raises an exception, unless the second operand has one row or one
  column and can be read as a scalar; that form is \<open>subtract_scalar\<close> of the
  environment.
\<close>

definition cv_subtract :: "env \<Rightarrow> Mat \<Rightarrow> Mat \<Rightarrow> error + Mat" where
  "cv_subtract e a b =
     (if rows a = rows b \<and> cols a = cols b \<and> channels a = channels b \<and> mdepth a = mdepth b
      then Inr (a\<lparr>mdata := map (\<lambda>(x, y). x - y) (zip (mdata a) (mdata b))\<rparr>)
      else if rows b = 1 \<or> cols b = 1 then subtract_scalar e a b
      else Inl CvException)"

definition MeanTransform_Apply ::
  "env \<Rightarrow> MeanTransform \<Rightarrow> Mat \<Rightarrow> error + (MeanTransform \<times> Mat)" where
  "MeanTransform_Apply e t mat =
     (if debug e \<and>
         \<not> ((rows (meanImg t) = 0 \<and> cols (meanImg t) = 0) \<or>
            (rows (meanImg t) = rows mat \<and> cols (meanImg t) = cols mat \<and>
             channels (meanImg t) = channels mat))
      then Inl AssertionFailed
      else if rows (meanImg t) = rows mat \<and> cols (meanImg t) = cols mat
      then (case cv_subtract e mat (meanImg t) of
              Inl err \<Rightarrow> Inl err
            | Inr mat' \<Rightarrow> Inr (t, mat'))
      else Inr (t, mat))"

subsection \<open>ImageReader\<close>

text \<open>
  Modelled from the spec: the matrix type of the destinations, whose header is not among
  the sources, receives the packed data. \<open>SetValue(numRows, numCols, pArray)\<close> copies
  \<open>numRows * numCols\<close> elements from the array.
\<close>

record Matrix =
  numRows :: nat
  numCols :: nat
  mvalues :: "real list"

definition SetValue :: "nat \<Rightarrow> nat \<Rightarrow> real list \<Rightarrow> error + Matrix" where
  "SetValue nr nc buf =
     (if length buf < nr * nc then Inl UndefinedBehaviour
      else Inr \<lparr>numRows = nr, numCols = nc, mvalues = take (nr * nc) buf\<rparr>)"

record ImageReader =
  m_seed :: nat
  m_rng :: mt19937
  m_imgListRand :: bool
  m_crop :: CropTransform
  m_scale :: ScaleTransform
  m_mean :: MeanTransform
  m_featName :: string
  m_labName :: string
  m_featDim :: nat
  m_labDim :: nat
  files :: "(string \<times> int) list"
  m_epochSize :: nat
  m_mbSize :: nat
  m_epoch :: nat
  m_epochStart :: nat
  m_mbStart :: nat
  m_featBuf :: "real list"
  m_labBuf :: "real list"
  m_pMBLayout :: "nat \<times> nat \<times> bool"

text \<open>
  The constructor sets the seed to 0, seeds the shuffle generator with it, and hands the
  value of the seed (0) to the crop and scale transforms, each of which keeps its own
  copy. The fields the constructor does not set hold what \<open>u\<close> holds.
\<close>

definition ImageReader_new :: "depth \<Rightarrow> ImageReader \<Rightarrow> ImageReader" where
  "ImageReader_new dataType u =
     u\<lparr>m_seed := 0, m_rng := make_mt19937 0, m_imgListRand := True,
       m_crop := (m_crop u)\<lparr>c_seed := 0, c_rngs := []\<rparr>,
       m_scale := (m_scale u)\<lparr>s_seed := 0, s_rngs := [], s_dataType := dataType, s_interp := []\<rparr>,
       m_mean := \<lparr>meanImg = \<lparr>rows = 0, cols = 0, channels = 1, mdepth = CV_8U, mdata = []\<rparr>\<rparr>,
       files := [], m_featBuf := [], m_labBuf := []\<rparr>"

text \<open>
  The configuration of the reader: its entries, each read as a section, and its own
  values.
\<close>

record reader_config =
  entries :: "(string \<times> config) list"
  cvalues :: config

definition gettter :: "reader_config \<Rightarrow> string \<Rightarrow> error + (string \<times> config)" where
  "gettter cfg paramName =
     (case find (\<lambda>p. ExistsCurrent (snd p) paramName) (entries cfg) of
        None \<Rightarrow> Inl (MissingParameter paramName)
      | Some sect \<Rightarrow> Inr sect)"

text \<open>
  One line of the map file. The two \<open>getline\<close> calls on the line, with the tab as
  delimiter, give the path and the class id; the line is rejected when either call
  fails. What follows a second tab is never read.
\<close>

definition read_fields :: "string \<Rightarrow> (string \<times> string) option" where
  "read_fields line =
     (case getline CHR 0x09 line of
        None \<Rightarrow> None
      | Some (imgPath, rest) \<Rightarrow>
          (case getline CHR 0x09 rest of
             None \<Rightarrow> None
           | Some (clsId, _) \<Rightarrow> Some (imgPath, clsId)))"

definition parse_line :: "string \<Rightarrow> nat \<Rightarrow> string \<Rightarrow> error + (string \<times> int)" where
  "parse_line mapPath cline line =
     (case read_fields line of
        None \<Rightarrow> Inl (InvalidMapFormat mapPath cline)
      | Some (imgPath, clsId) \<Rightarrow>
          (case stoi clsId of
             Inl err \<Rightarrow> Inl err
           | Inr label \<Rightarrow> Inr (imgPath, label)))"

fun load_lines ::
  "string \<Rightarrow> nat \<Rightarrow> string list \<Rightarrow> (string \<times> int) list \<Rightarrow> error + (string \<times> int) list" where
  "load_lines mapPath cline [] fs = Inr fs"
| "load_lines mapPath cline (line # ls) fs =
     (case parse_line mapPath cline line of
        Inl err \<Rightarrow> Inl err
      | Inr entry \<Rightarrow> load_lines mapPath (cline + 1) ls (fs @ [entry]))"

text \<open>The loop over the lines of the map file, from its content.\<close>

definition load_map :: "string \<Rightarrow> string \<Rightarrow> (string \<times> int) list \<Rightarrow> error + (string \<times> int) list" where
  "load_map mapPath content fs = load_lines mapPath 0 (getline_all CHR 0x0A content) fs"

definition ImageReader_Init :: "env \<Rightarrow> reader_config \<Rightarrow> ImageReader \<Rightarrow> error + ImageReader" where
  "ImageReader_Init e cfg r =
     (case gettter cfg ''width'' of Inl err \<Rightarrow> Inl err | Inr featSect \<Rightarrow>
     (case cfg_size_t e (snd featSect) ''width'' of Inl err \<Rightarrow> Inl err | Inr w \<Rightarrow>
     (case cfg_size_t e (snd featSect) ''height'' of Inl err \<Rightarrow> Inl err | Inr h \<Rightarrow>
     (case cfg_size_t e (snd featSect) ''channels'' of Inl err \<Rightarrow> Inl err | Inr c \<Rightarrow>
     (case CropTransform_Init e (snd featSect) (m_crop r) of Inl err \<Rightarrow> Inl err | Inr t1 \<Rightarrow>
     (case ScaleTransform_Init e (snd featSect) (m_scale r) of Inl err \<Rightarrow> Inl err | Inr t2 \<Rightarrow>
     (case MeanTransform_Init e (snd featSect) (m_mean r) of Inl err \<Rightarrow> Inl err | Inr t3 \<Rightarrow>
     (case gettter cfg ''labelDim'' of Inl err \<Rightarrow> Inl err | Inr labSect \<Rightarrow>
     (case cfg_size_t e (snd labSect) ''labelDim'' of Inl err \<Rightarrow> Inl err | Inr labDim \<Rightarrow>
     (case cfg_req (cvalues cfg) ''file'' of Inl err \<Rightarrow> Inl err | Inr mapPath \<Rightarrow>
     (case file_system e mapPath of None \<Rightarrow> Inl (CouldNotOpen mapPath) | Some content \<Rightarrow>
     (case load_map mapPath content (files r) of Inl err \<Rightarrow> Inl err | Inr fs \<Rightarrow>
        let rand = cfg_get (cvalues cfg) ''randomize'' ''auto'';
            r1 = r\<lparr>m_featName := fst featSect, m_featDim := (w * h * c) mod 2 ^ 64,
                   m_crop := t1, m_scale := t2, m_mean := t3,
                   m_labName := fst labSect, m_labDim := labDim, files := fs\<rparr>
        in if AreEqual rand ''none''
           then Inr (r1\<lparr>m_imgListRand := False, m_epochStart := 0, m_mbStart := 0\<rparr>)
           else if \<not> AreEqual rand ''auto'' then Inl OnlyAutoNoneSupported
           else Inr (r1\<lparr>m_epochStart := 0, m_mbStart := 0\<rparr>)))))))))))))"

text \<open>
  \<open>std::shuffle\<close>: for every position \<open>i\<close> from 1 on, the element at \<open>i\<close> is swapped with
  the element at a position drawn from \<open>[0, i]\<close>.
\<close>

fun shuffle_loop ::
  "(nat \<Rightarrow> nat \<Rightarrow> nat) \<Rightarrow> nat list \<Rightarrow> 'a list \<Rightarrow> mt19937 \<Rightarrow> error + ('a list \<times> mt19937)" where
  "shuffle_loop out [] xs g = Inr (xs, g)"
| "shuffle_loop out (i # rest) xs g =
     (case UniIntT out 0 (int i) g of
        Inl err \<Rightarrow> Inl err
      | Inr (j, g') \<Rightarrow> shuffle_loop out rest (xs[i := xs ! nat j, nat j := xs ! i]) g')"

definition std_shuffle ::
  "(nat \<Rightarrow> nat \<Rightarrow> nat) \<Rightarrow> 'a list \<Rightarrow> mt19937 \<Rightarrow> error + ('a list \<times> mt19937)" where
  "std_shuffle out xs g = shuffle_loop out [1 ..< length xs] xs g"

text \<open>\<open>vector::resize(n)\<close>: the first \<open>n\<close> elements, new elements are zero.\<close>

definition resize_vec :: "nat \<Rightarrow> real list \<Rightarrow> real list" where
  "resize_vec n xs = take n xs @ replicate (n - length xs) 0"

definition StartMinibatchLoop ::
  "env \<Rightarrow> nat \<Rightarrow> nat \<Rightarrow> nat \<Rightarrow> ImageReader \<Rightarrow> error + ImageReader" where
  "StartMinibatchLoop e mbSize epoch requestedEpochSamples r =
     (if debug e \<and> \<not> (mbSize > 0) then Inl AssertionFailed
      else if debug e \<and> \<not> (requestedEpochSamples > 0) then Inl AssertionFailed
      else
      (case (if m_imgListRand r
             then (case std_shuffle (mt_out e) (files r) (m_rng r) of
                     Inl err \<Rightarrow> Inl err
                   | Inr (fs, g) \<Rightarrow> Inr (r\<lparr>files := fs, m_rng := g\<rparr>))
             else Inr r) of
         Inl err \<Rightarrow> Inl err
       | Inr r1 \<Rightarrow>
           let epochSize = (if requestedEpochSamples = requestDataSize e
                            then length (files r1) else requestedEpochSamples)
           in
           if debug e \<and> \<not> (requestedEpochSamples = requestDataSize e \<or> epochSize mod mbSize = 0)
           then Inl AssertionFailed
           else
             let r2 = r1\<lparr>m_epochSize := epochSize, m_mbSize := mbSize, m_epoch := epoch,
                         m_epochStart := epoch * epochSize\<rparr>;
                 r3 = (if m_epochStart r2 \<ge> length (files r2)
                       then r2\<lparr>m_epochStart := 0, m_mbStart := 0\<rparr> else r2)
             in Inr (r3\<lparr>m_featBuf := resize_vec (mbSize * m_featDim r3) (m_featBuf r3),
                        m_labBuf := resize_vec (mbSize * m_labDim r3) (m_labBuf r3)\<rparr>)))"

text \<open>
  One iteration of the loop of \<open>GetMinibatch\<close>, for the sample \<open>i\<close> of the minibatch:
  the image is decoded, goes through the three transforms in order, its first
  \<open>m_featDim\<close> elements are copied to the slot \<open>i\<close> of the feature buffer and the entry
  \<open>m_labDim * i + label\<close> of the label buffer is set to 1. The index of that entry is
  computed in \<open>size_t\<close>: a negative sum is a position far beyond every buffer.
  The image that leaves the transforms is freshly allocated by \<open>cv::resize\<close>, so
  \<open>isContinuous\<close> holds.
\<close>

definition copy_features :: "nat \<Rightarrow> nat \<Rightarrow> real list \<Rightarrow> real list \<Rightarrow> error + real list" where
  "copy_features featDim i pixels featBuf =
     (if length pixels < featDim \<or> length featBuf < featDim * i + featDim
      then Inl UndefinedBehaviour
      else Inr (take (featDim * i) featBuf @ take featDim pixels @
                drop (featDim * i + featDim) featBuf))"

definition set_label :: "nat \<Rightarrow> nat \<Rightarrow> int \<Rightarrow> real list \<Rightarrow> error + real list" where
  "set_label labDim i label labBuf =
     (let idx = int (labDim * i) + label in
      if idx < 0 \<or> int (length labBuf) \<le> idx then Inl UndefinedBehaviour
      else Inr (labBuf[nat idx := 1]))"

definition process_sample :: "env \<Rightarrow> nat \<Rightarrow> ImageReader \<Rightarrow> error + ImageReader" where
  "process_sample e i r =
     (let p = files r ! (i + m_mbStart r) in
      (case CropTransform_Apply e (m_crop r) (imread e (fst p)) of
         Inl err \<Rightarrow> Inl err | Inr (t1, img1) \<Rightarrow>
      (case ScaleTransform_Apply e (m_scale r) img1 of
         Inl err \<Rightarrow> Inl err | Inr (t2, img2) \<Rightarrow>
      (case MeanTransform_Apply e (m_mean r) img2 of
         Inl err \<Rightarrow> Inl err | Inr (t3, img3) \<Rightarrow>
      (case copy_features (m_featDim r) i (mdata img3) (m_featBuf r) of
         Inl err \<Rightarrow> Inl err | Inr fb \<Rightarrow>
      (case set_label (m_labDim r) i (snd p) (m_labBuf r) of
         Inl err \<Rightarrow> Inl err | Inr lb \<Rightarrow>
         Inr (r\<lparr>m_crop := t1, m_scale := t2, m_mean := t3,
                 m_featBuf := fb, m_labBuf := lb\<rparr>)))))))"

text \<open>
  The loop over the samples of the minibatch. Every sample writes its own slots of the
  buffers, so the order of the iterations does not matter to them; the model runs the
  iterations in the order of the index. An exception in one iteration ends the call.
\<close>

fun process_all :: "env \<Rightarrow> nat list \<Rightarrow> ImageReader \<Rightarrow> error + ImageReader" where
  "process_all e [] r = Inr r"
| "process_all e (i # rest) r =
     (case process_sample e i r of Inl err \<Rightarrow> Inl err | Inr r' \<Rightarrow> process_all e rest r')"

type_synonym matrices = "(string \<times> Matrix) list"

definition set_matrix :: "string \<Rightarrow> Matrix \<Rightarrow> matrices \<Rightarrow> matrices" where
  "set_matrix name m ms = map (\<lambda>p. if fst p = name then (name, m) else p) ms"

text \<open>
  The condition under which \<open>GetMinibatch\<close> reports that there is no more data, and
  the limit of the minibatch otherwise.
\<close>

definition exhausted :: "ImageReader \<Rightarrow> bool" where
  "exhausted r =
     (m_mbStart r \<ge> length (files r) \<or> m_mbStart r \<ge> m_epochStart r + m_epochSize r)"

definition mbLim :: "ImageReader \<Rightarrow> nat" where
  "mbLim r =
     (if m_mbStart r + m_mbSize r > length (files r) then length (files r)
      else m_mbStart r + m_mbSize r)"

definition GetMinibatch ::
  "env \<Rightarrow> matrices \<Rightarrow> ImageReader \<Rightarrow> error + (bool \<times> ImageReader \<times> matrices)" where
  "GetMinibatch e ms r =
     (if debug e \<and> \<not> (length ms > 0 \<and> map_of ms (m_featName r) \<noteq> None \<and> m_mbSize r > 0)
      then Inl AssertionFailed
      else if map_of ms (m_featName r) = None \<or> map_of ms (m_labName r) = None
      then Inl UndefinedBehaviour
      else if exhausted r then Inr (False, r, ms)
      else
        let lim = mbLim r;
            r1 = r\<lparr>m_labBuf := replicate (length (m_labBuf r)) 0\<rparr>
        in
        (case process_all e [0 ..< lim - m_mbStart r] r1 of
           Inl err \<Rightarrow> Inl err
         | Inr r2 \<Rightarrow>
             let mbSize = lim - m_mbStart r in
             (case SetValue (m_featDim r2) mbSize (m_featBuf r2) of
                Inl err \<Rightarrow> Inl err
              | Inr features \<Rightarrow>
             (case SetValue (m_labDim r2) mbSize (m_labBuf r2) of
                Inl err \<Rightarrow> Inl err
              | Inr labels \<Rightarrow>
                  Inr (True,
                       r2\<lparr>m_pMBLayout := (mbSize, 1, False), m_mbStart := lim\<rparr>,
                       set_matrix (m_labName r2) labels
                         (set_matrix (m_featName r2) features ms))))))"

datatype EndDataType = endDataNull | endDataEpoch | endDataSet | endDataSentence

definition DataEnd :: "env \<Rightarrow> EndDataType \<Rightarrow> ImageReader \<Rightarrow> error + bool" where
  "DataEnd e endDataType r =
     (case endDataType of
        endDataNull \<Rightarrow> if debug e then Inl AssertionFailed else Inr False
      | endDataEpoch \<Rightarrow> Inr (m_mbStart r < m_epochStart r + m_epochSize r)
      | endDataSet \<Rightarrow> Inr (m_mbStart r \<ge> length (files r))
      | endDataSentence \<Rightarrow> Inr True)"

definition SetRandomSeed :: "nat \<Rightarrow> ImageReader \<Rightarrow> ImageReader" where
  "SetRandomSeed seed r = r\<lparr>m_seed := seed, m_rng := make_mt19937 seed\<rparr>"

subsection \<open>Concrete inputs\<close>

text \<open>
  A release-build environment and a debug-build one, a decoded image of two rows and
  three columns, a configuration with a map file of four samples, and the destination
  matrices of a caller. They are the inputs at which the theorems below are evaluated.
\<close>

definition img0 :: Mat where
  "img0 = \<lparr>rows = 2, cols = 3, channels = 3, mdepth = CV_8U, mdata = map real [0 ..< 18]\<rparr>"

definition env0 :: env where
  "env0 = \<lparr>debug = False, requestDataSize = 2 ^ 62 - 1,
           mt_out = (\<lambda>seed k. seed + 7 * k + 3),
           stof = (\<lambda>s. if s = ''1'' then Inr 1 else if s = ''0.5'' then Inr (1 / 2)
                        else Inl StdInvalidArgument),
           to_size_t = (\<lambda>s. case stoi s of Inl err \<Rightarrow> Inl err | Inr v \<Rightarrow> Inr (nat v)),
           file_system = [''map.txt'' \<mapsto> ''a.jpg'' @ [CHR 0x09] @ ''0'' @ [CHR 0x0A] @
                                           ''b.jpg'' @ [CHR 0x09] @ ''1'' @ [CHR 0x0A] @
                                           ''c.jpg'' @ [CHR 0x09] @ ''0'' @ [CHR 0x0A] @
                                           ''d.jpg'' @ [CHR 0x09] @ ''1'' @ [CHR 0x0A]],
           mean_store = Map.empty,
           imread = (\<lambda>p. img0),
           resize_data = (\<lambda>k m w h. replicate (nat (w * h * channels m)) 0),
           subtract_scalar = (\<lambda>a b. Inl CvException)\<rparr>"

definition env_debug :: env where
  "env_debug = env0\<lparr>debug := True\<rparr>"

definition blank_reader :: ImageReader where
  "blank_reader =
     \<lparr>m_seed = 0, m_rng = make_mt19937 0, m_imgListRand = True,
      m_crop = \<lparr>c_seed = 0, c_rngs = [], cropType = Center, cropRatioMin = 0, cropRatioMax = 0,
                jitterType = JNone, hFlip = False\<rparr>,
      m_scale = \<lparr>s_seed = 0, s_rngs = [], s_dataType = CV_32F, s_interp = [],
                 imgWidth = 0, imgHeight = 0, imgChannels = 0\<rparr>,
      m_mean = \<lparr>meanImg = \<lparr>rows = 0, cols = 0, channels = 1, mdepth = CV_8U, mdata = []\<rparr>\<rparr>,
      m_featName = [], m_labName = [], m_featDim = 0, m_labDim = 0, files = [],
      m_epochSize = 0, m_mbSize = 0, m_epoch = 0, m_epochStart = 0, m_mbStart = 0,
      m_featBuf = [], m_labBuf = [], m_pMBLayout = (0, 0, False)\<rparr>"

definition cfg0 :: reader_config where
  "cfg0 = \<lparr>entries = [(''features'', [''width'' \<mapsto> ''1'', ''height'' \<mapsto> ''1'',
                                       ''channels'' \<mapsto> ''3'']),
                       (''labels'', [''labelDim'' \<mapsto> ''2''])],
           cvalues = [''file'' \<mapsto> ''map.txt'', ''randomize'' \<mapsto> ''none'']\<rparr>"

text \<open>The reader after \<open>Init\<close> with \<open>cfg0\<close> and \<open>StartMinibatchLoop(2, 0, 4)\<close>.\<close>

definition reader1 :: ImageReader where
  "reader1 =
     \<lparr>m_seed = 0, m_rng = make_mt19937 0, m_imgListRand = False,
      m_crop = \<lparr>c_seed = 0, c_rngs = [], cropType = Center, cropRatioMin = 1, cropRatioMax = 1,
                jitterType = JNone, hFlip = False\<rparr>,
      m_scale = \<lparr>s_seed = 0, s_rngs = [], s_dataType = CV_32F, s_interp = [1],
                 imgWidth = 1, imgHeight = 1, imgChannels = 3\<rparr>,
      m_mean = \<lparr>meanImg = \<lparr>rows = 0, cols = 0, channels = 1, mdepth = CV_8U, mdata = []\<rparr>\<rparr>,
      m_featName = ''features'', m_labName = ''labels'', m_featDim = 3, m_labDim = 2,
      files = [(''a.jpg'', 0), (''b.jpg'', 1), (''c.jpg'', 0), (''d.jpg'', 1)],
      m_epochSize = 4, m_mbSize = 2, m_epoch = 0, m_epochStart = 0, m_mbStart = 0,
      m_featBuf = [0, 0, 0, 0, 0, 0], m_labBuf = [0, 0, 0, 0], m_pMBLayout = (0, 0, False)\<rparr>"

definition ms0 :: matrices where
  "ms0 = [(''features'', \<lparr>numRows = 0, numCols = 0, mvalues = []\<rparr>),
          (''labels'', \<lparr>numRows = 0, numCols = 0, mvalues = []\<rparr>)]"

text \<open>
  Three map files: one with a third field and a class id followed by letters, one whose
  second line has no tab, one whose second line has a class id that is not a number.
\<close>

definition map_extra :: string where
  "map_extra = ''a.jpg'' @ [CHR 0x09] @ ''1'' @ [CHR 0x09] @ ''extra'' @ [CHR 0x0A] @
               ''b.jpg'' @ [CHR 0x09] @ ''7up'' @ [CHR 0x0A]"

definition map_short :: string where
  "map_short = ''a.jpg'' @ [CHR 0x09] @ ''0'' @ [CHR 0x0A] @ ''b.jpg'' @ [CHR 0x0A]"

definition map_nonint :: string where
  "map_nonint = ''a.jpg'' @ [CHR 0x09] @ ''0'' @ [CHR 0x0A] @
                ''b.jpg'' @ [CHR 0x09] @ ''cat'' @ [CHR 0x0A]"


section \<open>Properties\<close>

subsection \<open>Auxiliary facts\<close>

lemma UniIntT_in_range:
  assumes "a \<le> b"
  shows "\<exists>v g'. UniIntT out a b g = Inr (v, g') \<and> a \<le> v \<and> v \<le> b"
proof -
  define r where "r = int (out (mt_seed g) (mt_pos g) mod 2 ^ 32)"
  have pos: "0 < b - a + 1" using assms by simp
  have "0 \<le> r mod (b - a + 1)" and "r mod (b - a + 1) < b - a + 1"
    using pos by (rule pos_mod_sign, rule pos_mod_bound)
  then show ?thesis
    using assms by (simp add: UniIntT_def mt_next_def r_def)
qed

lemma shuffle_loop_total:
  "\<exists>ys g'. shuffle_loop out idxs xs g = Inr (ys, g') \<and> length ys = length xs"
proof (induction idxs arbitrary: xs g)
  case Nil
  show ?case by simp
next
  case (Cons i rest)
  obtain j g1 where d: "UniIntT out 0 (int i) g = Inr (j, g1)"
    using UniIntT_in_range [of 0 "int i" out g] by auto
  from Cons.IH [of "xs[i := xs ! nat j, nat j := xs ! i]" g1] d show ?case by auto
qed

lemma std_shuffle_total:
  "\<exists>ys g'. std_shuffle out xs g = Inr (ys, g') \<and> length ys = length xs"
  unfolding std_shuffle_def by (rule shuffle_loop_total)

subsection \<open>StartMinibatchLoop\<close>



text \<open>
  C4, as the code has it. \<open>StartMinibatchLoop\<close> does not validate that the requested
  epoch size is a multiple of the minibatch size: it asserts it. A call with a
  requested size that is neither the sentinel nor a multiple of \<open>mbSize\<close> stops on the
  failed assertion in a debug build, and in a release build, where assertions are
  compiled out, it raises no error at all.
\<close>

theorem StartMinibatchLoop_not_multiple:
  assumes "requestedEpochSamples \<noteq> requestDataSize e"
    and "requestedEpochSamples mod mbSize \<noteq> 0"
  shows "if debug e
         then StartMinibatchLoop e mbSize epoch requestedEpochSamples r = Inl AssertionFailed
         else \<not> isl (StartMinibatchLoop e mbSize epoch requestedEpochSamples r)"
proof -
  obtain ys g' where sh: "std_shuffle (mt_out e) (files r) (m_rng r) = Inr (ys, g')"
    using std_shuffle_total by blast
  show ?thesis
    using assms sh
    by (auto simp: StartMinibatchLoop_def Let_def split: if_splits)
qed

theorem StartMinibatchLoop_not_multiple_witness:
  "3 \<noteq> requestDataSize env_debug \<and> (3::nat) mod 2 \<noteq> 0 \<and> debug env_debug \<and>
   StartMinibatchLoop env_debug 2 0 3 reader1 = Inl AssertionFailed \<and>
   3 \<noteq> requestDataSize env0 \<and> \<not> debug env0 \<and>
   \<not> isl (StartMinibatchLoop env0 2 0 3 reader1)"
proof -
  have h1: "3 \<noteq> requestDataSize env_debug" and h1': "3 \<noteq> requestDataSize env0"
    by (simp_all add: env_debug_def env0_def)
  have h2: "(3::nat) mod 2 \<noteq> 0" by simp
  have h3: "debug env_debug" and h3': "\<not> debug env0"
    by (simp_all add: env_debug_def env0_def)
  show ?thesis
    using StartMinibatchLoop_not_multiple [OF h1 h2, of 0 reader1]
      StartMinibatchLoop_not_multiple [OF h1' h2, of 0 reader1] h1 h1' h2 h3 h3'
    by simp
qed

text \<open>
  The claim C4 as stated fails in a release build: the requested size 3 is not the
  sentinel and not a multiple of the minibatch size 2, and the call returns a reader,
  with the epoch size 3.
\<close>

theorem StartMinibatchLoop_not_multiple_counterexample:
  "3 \<noteq> requestDataSize env0 \<and> (3::nat) mod 2 \<noteq> 0 \<and>
   StartMinibatchLoop env0 2 0 3 reader1 = Inr (reader1\<lparr>m_epochSize := 3\<rparr>)"
  by (simp add: StartMinibatchLoop_def env0_def reader1_def resize_vec_def Let_def)

subsection \<open>CropTransform\<close>





lemma ParseJitterType_unilength:
  assumes "map tolower j = ''unilength''"
  shows "ParseJitterType j = Inr UniLength"
proof -
  have len: "length j = 9"
    using arg_cong [OF assms, of length] by simp
  then have ne: "j \<noteq> []" by auto
  show ?thesis
    using assms len ne by (simp add: ParseJitterType_def AreEqual_def tolower_def)
qed

lemma ParseJitterType_uniarea:
  assumes "map tolower j = ''uniarea''"
  shows "ParseJitterType j = Inr UniArea"
proof -
  have len: "length j = 7"
    using arg_cong [OF assms, of length] by simp
  then have ne: "j \<noteq> []" by auto
  show ?thesis
    using assms len ne by (simp add: ParseJitterType_def AreEqual_def tolower_def)
qed

lemma CropTransform_Init_jitter:
  assumes "cfg ''jitterType'' = Some j"
    and "ParseJitterType j = Inr jt"
    and "CropTransform_Init e (cfg(''jitterType'' := None)) t = Inr t0"
  shows "CropTransform_Init e cfg t = Inr (t0\<lparr>jitterType := jt\<rparr>)"
proof -
  let ?cfg' = "cfg(''jitterType'' := None)"
  have g1: "cfg_get ?cfg' ''cropType'' [] = cfg_get cfg ''cropType'' []"
    and g2: "cfg_get ?cfg' ''cropRatio'' ''1'' = cfg_get cfg ''cropRatio'' ''1''"
    and g3: "cfg_get ?cfg' ''hflip'' [] = cfg_get cfg ''hflip'' []"
    and g4: "ExistsCurrent ?cfg' ''hflip'' = ExistsCurrent cfg ''hflip''"
    and g5: "cfg_get ?cfg' ''jitterType'' [] = []"
    by (simp_all add: cfg_get_def ExistsCurrent_def)
  have g6: "cfg_get cfg ''jitterType'' [] = j"
    using assms(1) by (simp add: cfg_get_def)
  have g7: "ParseJitterType [] = Inr JNone"
    by (simp add: ParseJitterType_def)
  note gs = g1 g2 g3 g4 g5 g6 g7 assms(2)
  show ?thesis
  proof (cases "ParseCropType (cfg_get cfg ''cropType'' [])")
    case (Inl err)
    with assms(3) show ?thesis by (simp add: CropTransform_Init_def gs)
  next
    case ct: (Inr ct)
    show ?thesis
    proof (cases "parse_cropRatio e (cfg_get cfg ''cropRatio'' ''1'') (t\<lparr>cropType := ct\<rparr>)")
      case (Inl err)
      with ct assms(3) show ?thesis by (simp add: CropTransform_Init_def gs)
    next
      case t1: (Inr t1)
      show ?thesis
      proof (cases "stoi (cfg_get cfg ''hflip'' [])")
        case (Inl err)
        with ct t1 assms(3) show ?thesis
          by (auto simp: CropTransform_Init_def gs split: if_splits)
      next
        case (Inr v)
        with ct t1 assms(3) show ?thesis
          by (auto simp: CropTransform_Init_def gs split: if_splits)
      qed
    qed
  qed
qed

lemma UniIntT_not_JNI: "UniIntT out a b g \<noteq> Inl JitterNotImplemented"
  by (simp add: UniIntT_def split: prod.splits)

lemma GetCropRect_not_JNI: "GetCropRect e type crow ccol ratio g \<noteq> Inl JitterNotImplemented"
proof (cases type)
  case Center
  then show ?thesis by (simp add: GetCropRect_def Let_def)
next
  case Random
  define cs where "cs = trunc_int (real_of_int (min crow ccol) * ratio)"
  show ?thesis
  proof (cases "UniIntT (mt_out e) 0 (ccol - cs) g")
    case (Inl err)
    then have "err \<noteq> JitterNotImplemented" using UniIntT_not_JNI by metis
    with Inl Random show ?thesis
      by (simp add: GetCropRect_def Let_def cs_def [symmetric])
  next
    case (Inr xg)
    obtain x g1 where xg: "xg = (x, g1)" by (cases xg)
    show ?thesis
    proof (cases "UniIntT (mt_out e) 0 (crow - cs) g1")
      case (Inl err)
      then have "err \<noteq> JitterNotImplemented" using UniIntT_not_JNI by metis
      with Inl Inr xg Random show ?thesis
        by (simp add: GetCropRect_def Let_def cs_def [symmetric])
    next
      case inr2: (Inr yg)
      obtain y g2 where yg: "yg = (y, g2)" by (cases yg)
      from inr2 Inr xg yg Random show ?thesis
        by (simp add: GetCropRect_def Let_def cs_def [symmetric])
    qed
  qed
qed

lemma mat_roi_not_JNI: "mat_roi m r \<noteq> Inl JitterNotImplemented"
  by (simp add: mat_roi_def)

lemma draw_ratio_JNI:
  "(draw_ratio e t g = Inl JitterNotImplemented) = (jitterType t = UniLength \<or> jitterType t = UniArea)"
  by (cases "jitterType t") (simp_all add: draw_ratio_def split: prod.splits)

lemma CropTransform_Apply_not_implemented:
  "(CropTransform_Apply e t mat = Inl JitterNotImplemented) =
   (jitterType t = UniLength \<or> jitterType t = UniArea)"
proof -
  obtain g pool where pc: "pop_or_create (c_seed t) (c_rngs t) = (g, pool)"
    by (cases "pop_or_create (c_seed t) (c_rngs t)")
  show ?thesis
  proof (cases "draw_ratio e t g")
    case (Inl err)
    with pc show ?thesis
      using draw_ratio_JNI [of e t g] by (simp add: CropTransform_Apply_def)
  next
    case (Inr rg)
    then have no: "\<not> (jitterType t = UniLength \<or> jitterType t = UniArea)"
      using draw_ratio_JNI [of e t g] by simp
    obtain ratio g1 where rg: "rg = (ratio, g1)" by (cases rg)
    show ?thesis
    proof (cases "GetCropRect e (cropType t) (rows mat) (cols mat) ratio g1")
      case (Inl err)
      then have "err \<noteq> JitterNotImplemented" using GetCropRect_not_JNI by metis
      with Inl Inr rg pc no show ?thesis by (simp add: CropTransform_Apply_def)
    next
      case inr2: (Inr cg)
      obtain rect g2 where cg: "cg = (rect, g2)" by (cases cg)
      show ?thesis
      proof (cases "mat_roi mat rect")
        case (Inl err)
        then have "err \<noteq> JitterNotImplemented" using mat_roi_not_JNI by metis
        with Inl inr2 cg Inr rg pc no show ?thesis by (simp add: CropTransform_Apply_def)
      next
        case inr3: (Inr mat1)
        with inr2 cg Inr rg pc no show ?thesis
          by (simp add: CropTransform_Apply_def split: prod.splits)
      qed
    qed
  qed
qed

text \<open>
  C8. A configuration whose jitter type is \<open>unilength\<close> or \<open>uniarea\<close> (in any case of
  the letters) is accepted by \<open>CropTransform::Init\<close> whenever the same configuration
  without the key is, and every \<open>Apply\<close> of the transform so configured fails with the
  "not implemented" error. \<open>Apply\<close> raises that error for these two jitter kinds only:
  with \<open>none\<close> and \<open>uniratio\<close> the crop is applied.
\<close>

theorem jitter_parsed_but_not_implemented:
  assumes "map tolower j = ''unilength'' \<or> map tolower j = ''uniarea''"
    and "cfg ''jitterType'' = Some j"
    and "CropTransform_Init e (cfg(''jitterType'' := None)) t = Inr t0"
  shows "(\<exists>t'. CropTransform_Init e cfg t = Inr t' \<and>
               (jitterType t' = UniLength \<or> jitterType t' = UniArea) \<and>
               (\<forall>pool mat. CropTransform_Apply e (t'\<lparr>c_rngs := pool\<rparr>) mat
                              = Inl JitterNotImplemented)) \<and>
         (\<forall>t1 mat. (CropTransform_Apply e t1 mat = Inl JitterNotImplemented) =
                     (jitterType t1 = UniLength \<or> jitterType t1 = UniArea))"
proof -
  obtain jt where p: "ParseJitterType j = Inr jt" and k: "jt = UniLength \<or> jt = UniArea"
    using assms(1) ParseJitterType_unilength [of j] ParseJitterType_uniarea [of j] by auto
  have i: "CropTransform_Init e cfg t = Inr (t0\<lparr>jitterType := jt\<rparr>)"
    using CropTransform_Init_jitter [OF assms(2) p assms(3)] .
  have "\<forall>pool mat. CropTransform_Apply e (t0\<lparr>jitterType := jt, c_rngs := pool\<rparr>) mat
                      = Inl JitterNotImplemented"
    using k by (simp add: CropTransform_Apply_not_implemented)
  with i k show ?thesis
    by (simp add: CropTransform_Apply_not_implemented)
qed

theorem jitter_parsed_but_not_implemented_witness:
  "map tolower ''UniLength'' = ''unilength'' \<and>
   CropTransform_Init env0 (Map.empty(''jitterType'' := None)) (m_crop blank_reader)
     = Inr ((m_crop blank_reader)\<lparr>cropRatioMin := 1, cropRatioMax := 1\<rparr>) \<and>
   (\<exists>t'. CropTransform_Init env0 [''jitterType'' \<mapsto> ''UniLength''] (m_crop blank_reader) = Inr t' \<and>
         (jitterType t' = UniLength \<or> jitterType t' = UniArea) \<and>
         CropTransform_Apply env0 t' img0 = Inl JitterNotImplemented)"
proof -
  have h0: "map tolower ''UniLength'' = ''unilength''"
    by (simp add: tolower_def char_of_def bit_Suc_0_iff)
  then have h1: "map tolower ''UniLength'' = ''unilength'' \<or> map tolower ''UniLength'' = ''uniarea''"
    by (rule disjI1)
  have h2: "[''jitterType'' \<mapsto> ''UniLength''] ''jitterType'' = Some ''UniLength''" by simp
  have h3: "CropTransform_Init env0 ([''jitterType'' \<mapsto> ''UniLength'']
                (''jitterType'' := None)) (m_crop blank_reader)
              = Inr ((m_crop blank_reader)\<lparr>cropRatioMin := 1, cropRatioMax := 1\<rparr>)"
    by (simp add: CropTransform_Init_def cfg_get_def ExistsCurrent_def ParseCropType_def
          ParseJitterType_def parse_cropRatio_def getline_def env0_def blank_reader_def)
  have "\<exists>t'. CropTransform_Init env0 [''jitterType'' \<mapsto> ''UniLength'']
                 (m_crop blank_reader) = Inr t' \<and>
               (jitterType t' = UniLength \<or> jitterType t' = UniArea) \<and>
               (\<forall>pool mat. CropTransform_Apply env0 (t'\<lparr>c_rngs := pool\<rparr>) mat
                              = Inl JitterNotImplemented)"
    using jitter_parsed_but_not_implemented [OF h1 h2 h3] by (rule conjunct1)
  then obtain t' where i: "CropTransform_Init env0 [''jitterType'' \<mapsto> ''UniLength'']
                        (m_crop blank_reader) = Inr t'"
    and jt: "jitterType t' = UniLength \<or> jitterType t' = UniArea"
    and a: "\<forall>pool mat. CropTransform_Apply env0 (t'\<lparr>c_rngs := pool\<rparr>) mat
                              = Inl JitterNotImplemented"
    by (elim exE conjE)
  have "CropTransform_Apply env0 (t'\<lparr>c_rngs := c_rngs t'\<rparr>) img0 = Inl JitterNotImplemented"
    using a by (elim allE)
  then have ap: "CropTransform_Apply env0 t' img0 = Inl JitterNotImplemented" by simp
  have h3': "CropTransform_Init env0 (Map.empty(''jitterType'' := None)) (m_crop blank_reader)
              = Inr ((m_crop blank_reader)\<lparr>cropRatioMin := 1, cropRatioMax := 1\<rparr>)"
    using h3 by simp
  show ?thesis
  proof (intro conjI)
    show "map tolower ''UniLength'' = ''unilength''" by (rule h0)
    show "CropTransform_Init env0 (Map.empty(''jitterType'' := None)) (m_crop blank_reader)
            = Inr ((m_crop blank_reader)\<lparr>cropRatioMin := 1, cropRatioMax := 1\<rparr>)"
      by (rule h3')
    show "\<exists>t'. CropTransform_Init env0 [''jitterType'' \<mapsto> ''UniLength'']
                 (m_crop blank_reader) = Inr t' \<and>
               (jitterType t' = UniLength \<or> jitterType t' = UniArea) \<and>
               CropTransform_Apply env0 t' img0 = Inl JitterNotImplemented"
      using i jt ap by (intro exI [of _ t'] conjI)
  qed
qed

subsection \<open>ScaleTransform\<close>

lemma static_cast_int_small: "n < 2 ^ 31 \<Longrightarrow> static_cast_int n = int n"
  by (simp add: static_cast_int_def Let_def)

text \<open>
  C6, as the code has it. For a non-empty input image and a configured width and
  height that are positive and fit an \<open>int\<close>, \<open>ScaleTransform::Apply\<close> returns an image
  with exactly the configured width and height, whatever the size of the input. Its
  channel count is the channel count of the input: the configured channel count takes
  part only in the decision whether to convert the element type.
\<close>

theorem ScaleTransform_Apply_size:
  assumes "0 < rows mat" and "0 < cols mat"
    and "0 < imgWidth t" and "imgWidth t < 2 ^ 31"
    and "0 < imgHeight t" and "imgHeight t < 2 ^ 31"
    and "s_interp t \<noteq> []" and "length (s_interp t) < 2 ^ 31"
  shows "\<exists>t' out. ScaleTransform_Apply e t mat = Inr (t', out) \<and>
           cols out = int (imgWidth t) \<and> rows out = int (imgHeight t) \<and>
           channels out = channels mat \<and> mdepth out = s_dataType t"
proof -
  obtain g pool where pc: "pop_or_create (s_seed t) (s_rngs t) = (g, pool)"
    by (cases "pop_or_create (s_seed t) (s_rngs t)")
  have n: "static_cast_int (length (s_interp t)) = int (length (s_interp t))"
    and w: "static_cast_int (imgWidth t) = int (imgWidth t)"
    and h: "static_cast_int (imgHeight t) = int (imgHeight t)"
    using assms by (simp_all add: static_cast_int_small)
  have "0 \<le> int (length (s_interp t)) - 1" using assms(7) by (cases "s_interp t") simp_all
  then obtain k g1 where d: "UniIntT (mt_out e) 0 (int (length (s_interp t)) - 1) g = Inr (k, g1)"
    using UniIntT_in_range [of 0 "int (length (s_interp t)) - 1" "mt_out e" g] by auto
  show ?thesis
    using assms pc d
    by (simp add: ScaleTransform_Apply_def Let_def n w h cv_resize_def)
qed

theorem ScaleTransform_Apply_size_witness:
  "\<exists>t' out. ScaleTransform_Apply env0 ((m_scale reader1)\<lparr>imgWidth := 4, imgHeight := 5\<rparr>) img0
              = Inr (t', out) \<and>
     cols out = 4 \<and> rows out = 5 \<and> channels out = 3 \<and> mdepth out = CV_32F \<and>
     rows img0 = 2 \<and> cols img0 = 3"
proof -
  let ?t = "(m_scale reader1)\<lparr>imgWidth := 4, imgHeight := 5\<rparr>"
  have "0 < rows img0" and "0 < cols img0"
    and "0 < imgWidth ?t" and "imgWidth ?t < 2 ^ 31"
    and "0 < imgHeight ?t" and "imgHeight ?t < 2 ^ 31"
    and "s_interp ?t \<noteq> []" and "length (s_interp ?t) < 2 ^ 31"
    by (simp_all add: img0_def reader1_def)
  from ScaleTransform_Apply_size [OF this, of env0] show ?thesis
    by (simp add: img0_def reader1_def)
qed

text \<open>
  The claim C6 as stated fails on the channel count: with one channel configured, the
  transform returns the three channels of the decoded colour image.
\<close>

theorem ScaleTransform_Apply_channels_counterexample:
  "imgChannels ((m_scale reader1)\<lparr>imgChannels := 1\<rparr>) = 1 \<and>
   \<not> isl (ScaleTransform_Apply env0 ((m_scale reader1)\<lparr>imgChannels := 1\<rparr>) img0) \<and>
   channels (snd (projr (ScaleTransform_Apply env0 ((m_scale reader1)\<lparr>imgChannels := 1\<rparr>) img0))) = 3"
  by (simp add: ScaleTransform_Apply_def Let_def reader1_def img0_def env0_def pop_or_create_def
        UniIntT_def mt_next_def make_mt19937_def static_cast_int_def cv_resize_def)

subsection \<open>MeanTransform\<close>


subsection \<open>SetRandomSeed\<close>

lemma SetRandomSeed_frame:
  "m_crop (SetRandomSeed seed r) = m_crop r \<and> m_scale (SetRandomSeed seed r) = m_scale r \<and>
   m_mean (SetRandomSeed seed r) = m_mean r"
  by (simp add: SetRandomSeed_def)

lemma ImageReader_new_seeds:
  "c_seed (m_crop (ImageReader_new dataType u)) = 0 \<and>
   s_seed (m_scale (ImageReader_new dataType u)) = 0"
  by (simp add: ImageReader_new_def)

text \<open>
  C9 at a failing input: after \<open>SetRandomSeed(5)\<close> the seed of the reader is 5, the
  pools of the crop and scale transforms are still empty, and the generator that the
  next \<open>Apply\<close> of either transform creates and returns to its pool is seeded with 0,
  the value the transform copied when the reader was constructed.
\<close>

theorem SetRandomSeed_not_seen_by_transforms:
  "m_seed (SetRandomSeed 5 reader1) = 5 \<and>
   m_rng (SetRandomSeed 5 reader1) = make_mt19937 5 \<and>
   c_rngs (m_crop (SetRandomSeed 5 reader1)) = [] \<and>
   s_rngs (m_scale (SetRandomSeed 5 reader1)) = [] \<and>
   map mt_seed (c_rngs (fst (projr (CropTransform_Apply env0 (m_crop (SetRandomSeed 5 reader1)) img0))))
     = [0] \<and>
   map mt_seed (s_rngs (fst (projr (ScaleTransform_Apply env0 (m_scale (SetRandomSeed 5 reader1)) img0))))
     = [0]"
  by (simp add: SetRandomSeed_def reader1_def CropTransform_Apply_def ScaleTransform_Apply_def
        pop_or_create_def push_def make_mt19937_def draw_ratio_def GetCropRect_def Let_def
        trunc_int_def tdiv_def mat_roi_def img0_def env0_def UniIntT_def mt_next_def
        static_cast_int_def cv_resize_def)

theorem SetRandomSeed_not_seen_by_transforms_witness:
  "map mt_seed (c_rngs (fst (projr (CropTransform_Apply env0 (m_crop (SetRandomSeed 5 reader1)) img0))))
     \<noteq> [m_seed (SetRandomSeed 5 reader1)] \<and>
   map mt_seed (s_rngs (fst (projr (ScaleTransform_Apply env0 (m_scale (SetRandomSeed 5 reader1)) img0))))
     \<noteq> [m_seed (SetRandomSeed 5 reader1)]"
  using SetRandomSeed_not_seen_by_transforms by simp

text \<open>
  The reader \<open>reader1\<close> is the state that the constructor, \<open>Init\<close> with \<open>cfg0\<close> and
  \<open>StartMinibatchLoop(2, 0, 4)\<close> produce.
\<close>

lemma reader1_reached:
  "(case ImageReader_Init env0 cfg0 (ImageReader_new CV_32F blank_reader) of
      Inl err \<Rightarrow> Inl err
    | Inr r \<Rightarrow> StartMinibatchLoop env0 2 0 4 r) = Inr reader1"
  apply (simp add: ImageReader_Init_def env0_def cfg0_def ImageReader_new_def blank_reader_def
     gettter_def ExistsCurrent_def cfg_size_t_def cfg_req_def cfg_get_def stoi_def isspace_def
     isdigit_def digits_value_def CropTransform_Init_def ParseCropType_def ParseJitterType_def
     parse_cropRatio_def getline_def ScaleTransform_Init_def parse_interpolations_def
     MeanTransform_Init_def release_def load_map_def parse_line_def read_fields_def AreEqual_def
     tolower_def
     StartMinibatchLoop_def resize_vec_def reader1_def make_mt19937_def Let_def)
  apply (simp add: numeral_eq_Suc)
  done

subsection \<open>Loading the map file\<close>

lemma stoi_errors: "stoi s = Inl err \<Longrightarrow> err = StdInvalidArgument \<or> err = StdOutOfRange"
  by (auto simp: stoi_def Let_def split: if_splits)

lemma parse_line_Inr:
  "(parse_line path n l = Inr entry) =
   (\<exists>clsId. read_fields l = Some (fst entry, clsId) \<and> stoi clsId = Inr (snd entry))"
  by (cases entry) (auto simp: parse_line_def split: option.splits sum.splits)

lemma parse_line_Inl:
  "(parse_line path n l = Inl err) =
   ((read_fields l = None \<and> err = InvalidMapFormat path n) \<or>
    (\<exists>imgPath clsId. read_fields l = Some (imgPath, clsId) \<and> stoi clsId = Inl err))"
  by (auto simp: parse_line_def split: option.splits sum.splits)

lemma load_lines_Inr:
  "(load_lines path c ls fs = Inr fs') =
   (\<exists>new. fs' = fs @ new \<and>
          list_all2 (\<lambda>l entry. \<exists>clsId. read_fields l = Some (fst entry, clsId) \<and>
                                         stoi clsId = Inr (snd entry)) ls new)"
proof (induction ls arbitrary: c fs)
  case Nil
  show ?case by auto
next
  case (Cons l ls)
  show ?case
  proof (cases "parse_line path c l")
    case (Inl err)
    have no: "\<not> (\<exists>clsId. read_fields l = Some (fst e', clsId) \<and> stoi clsId = Inr (snd e'))"
      for e'
      using Inl parse_line_Inr [of path c l e'] by simp
    have "\<not> (\<exists>new. fs' = fs @ new \<and>
          list_all2 (\<lambda>l entry. \<exists>clsId. read_fields l = Some (fst entry, clsId) \<and>
                                         stoi clsId = Inr (snd entry)) (l # ls) new)"
    proof
      assume "\<exists>new. fs' = fs @ new \<and>
          list_all2 (\<lambda>l entry. \<exists>clsId. read_fields l = Some (fst entry, clsId) \<and>
                                         stoi clsId = Inr (snd entry)) (l # ls) new"
      then obtain e' where
        "\<exists>clsId. read_fields l = Some (fst e', clsId) \<and> stoi clsId = Inr (snd e')"
        unfolding list_all2_Cons1 by blast
      with no [of e'] show False by simp
    qed
    moreover have "load_lines path c (l # ls) fs \<noteq> Inr fs'" using Inl by simp
    ultimately show ?thesis by simp
  next
    case (Inr entry)
    then have ok: "\<exists>clsId. read_fields l = Some (fst entry, clsId) \<and> stoi clsId = Inr (snd entry)"
      by (simp add: parse_line_Inr)
    have uniq: "e' = entry"
      if "\<exists>clsId. read_fields l = Some (fst e', clsId) \<and> stoi clsId = Inr (snd e')" for e'
      using that ok by (auto simp: prod_eq_iff)
    show ?thesis
    proof
      assume "load_lines path c (l # ls) fs = Inr fs'"
      with Inr have "load_lines path (c + 1) ls (fs @ [entry]) = Inr fs'" by simp
      then obtain new where "fs' = (fs @ [entry]) @ new"
        and "list_all2 (\<lambda>l entry. \<exists>clsId. read_fields l = Some (fst entry, clsId) \<and>
                                         stoi clsId = Inr (snd entry)) ls new"
        using Cons.IH by blast
      with ok show "\<exists>new. fs' = fs @ new \<and>
          list_all2 (\<lambda>l entry. \<exists>clsId. read_fields l = Some (fst entry, clsId) \<and>
                                         stoi clsId = Inr (snd entry)) (l # ls) new"
        by (intro exI [of _ "entry # new"]) simp
    next
      assume "\<exists>new. fs' = fs @ new \<and>
          list_all2 (\<lambda>l entry. \<exists>clsId. read_fields l = Some (fst entry, clsId) \<and>
                                         stoi clsId = Inr (snd entry)) (l # ls) new"
      then obtain e' new' where f: "fs' = fs @ e' # new'"
        and h: "\<exists>clsId. read_fields l = Some (fst e', clsId) \<and> stoi clsId = Inr (snd e')"
        and t: "list_all2 (\<lambda>l entry. \<exists>clsId. read_fields l = Some (fst entry, clsId) \<and>
                                         stoi clsId = Inr (snd entry)) ls new'"
        by (auto simp: list_all2_Cons1)
      have "e' = entry" using uniq [OF h] .
      with f t have "load_lines path (c + 1) ls (fs @ [entry]) = Inr fs'"
        using Cons.IH [of "c + 1" "fs @ [entry]"] by auto
      with Inr show "load_lines path c (l # ls) fs = Inr fs'" by simp
    qed
  qed
qed

lemma load_lines_Inl:
  "(load_lines path c ls fs = Inl err) =
   (\<exists>i<length ls.
      (\<forall>k<i. \<exists>imgPath clsId label. read_fields (ls ! k) = Some (imgPath, clsId) \<and>
                                      stoi clsId = Inr label) \<and>
      ((read_fields (ls ! i) = None \<and> err = InvalidMapFormat path (c + i)) \<or>
       (\<exists>imgPath clsId. read_fields (ls ! i) = Some (imgPath, clsId) \<and> stoi clsId = Inl err)))"
proof (induction ls arbitrary: c fs)
  case Nil
  show ?case by simp
next
  case (Cons l ls)
  show ?case
  proof (cases "parse_line path c l")
    case (Inl e)
    then have bad: "(read_fields l = None \<and> e = InvalidMapFormat path c) \<or>
        (\<exists>imgPath clsId. read_fields l = Some (imgPath, clsId) \<and> stoi clsId = Inl e)"
      by (simp add: parse_line_Inl)
    then have notok: "\<not> (\<exists>imgPath clsId label. read_fields l = Some (imgPath, clsId) \<and>
                                      stoi clsId = Inr label)"
      by auto
    have "load_lines path c (l # ls) fs = Inl e" using Inl by simp
    moreover have "(\<exists>i<length (l # ls).
      (\<forall>k<i. \<exists>imgPath clsId label. read_fields ((l # ls) ! k) = Some (imgPath, clsId) \<and>
                                      stoi clsId = Inr label) \<and>
      ((read_fields ((l # ls) ! i) = None \<and> err = InvalidMapFormat path (c + i)) \<or>
       (\<exists>imgPath clsId. read_fields ((l # ls) ! i) = Some (imgPath, clsId) \<and>
                         stoi clsId = Inl err))) = (err = e)"
      using bad notok by (auto simp: Ex_less_Suc2 All_less_Suc2)
    ultimately show ?thesis by auto
  next
    case (Inr entry)
    then have ok: "\<exists>imgPath clsId label. read_fields l = Some (imgPath, clsId) \<and>
                                      stoi clsId = Inr label"
      unfolding parse_line_Inr by blast
    have "load_lines path c (l # ls) fs = load_lines path (c + 1) ls (fs @ [entry])"
      using Inr by simp
    then show ?thesis
      using ok Cons.IH [of "c + 1" "fs @ [entry]"]
      by (auto simp: Ex_less_Suc2 All_less_Suc2)
  qed
qed

lemma read_fields_None:
  "(read_fields l = None) = (l = [] \<or> drop 1 (dropWhile (\<lambda>c. c \<noteq> CHR 0x09) l) = [])"
  by (auto simp: read_fields_def getline_def split: option.splits if_splits)

lemma split_at_delim:
  "d \<notin> set xs \<Longrightarrow>
     takeWhile (\<lambda>c. c \<noteq> d) (xs @ d # ys) = xs \<and>
     dropWhile (\<lambda>c. c \<noteq> d) (xs @ d # ys) = d # ys"
  by (induction xs) auto

lemma read_fields_more:
  assumes "CHR 0x09 \<notin> set imgPath" and "CHR 0x09 \<notin> set clsId"
  shows "read_fields (imgPath @ CHR 0x09 # clsId @ CHR 0x09 # extra) = Some (imgPath, clsId)"
  using split_at_delim [OF assms(1), of "clsId @ CHR 0x09 # extra"]
    split_at_delim [OF assms(2), of extra]
  by (simp add: read_fields_def getline_def)

text \<open>
  C5, as the code has it. Loading the map file succeeds exactly when every line gives
  two fields to the two \<open>getline\<close> calls and \<open>std::stoi\<close> accepts the second one; the
  entries are appended in the order of the lines. Loading fails with the error of the
  first line that does not: the format error, with the number of that line counted
  from 0, when the line has fewer than two fields (it is empty, or nothing follows its
  first tab); the exception of \<open>std::stoi\<close> (\<open>invalid_argument\<close> or \<open>out_of_range\<close>),
  which names no line, when the second field does not start with an integer that fits
  an \<open>int\<close>. A line with more than two fields is accepted: the fields after the second
  are ignored.
\<close>

theorem load_map_result:
  "((load_map path content fs = Inr fs') =
      (\<exists>new. fs' = fs @ new \<and>
         list_all2 (\<lambda>l entry. \<exists>clsId. read_fields l = Some (fst entry, clsId) \<and>
                                        stoi clsId = Inr (snd entry))
                   (getline_all CHR 0x0A content) new)) \<and>
   ((load_map path content fs = Inl err) =
      (\<exists>i<length (getline_all CHR 0x0A content).
         (\<forall>k<i. \<exists>imgPath clsId label.
                   read_fields (getline_all CHR 0x0A content ! k) = Some (imgPath, clsId) \<and>
                   stoi clsId = Inr label) \<and>
         ((read_fields (getline_all CHR 0x0A content ! i) = None \<and>
           err = InvalidMapFormat path i) \<or>
          (\<exists>imgPath clsId.
              read_fields (getline_all CHR 0x0A content ! i) = Some (imgPath, clsId) \<and>
              stoi clsId = Inl err \<and> (err = StdInvalidArgument \<or> err = StdOutOfRange))))) \<and>
   (\<forall>l. (read_fields l = None) =
          (l = [] \<or> drop 1 (dropWhile (\<lambda>c. c \<noteq> CHR 0x09) l) = [])) \<and>
   (\<forall>imgPath clsId extra.
       CHR 0x09 \<notin> set imgPath \<and> CHR 0x09 \<notin> set clsId \<longrightarrow>
       read_fields (imgPath @ CHR 0x09 # clsId @ CHR 0x09 # extra) = Some (imgPath, clsId))"
proof (intro conjI allI impI)
  show "(load_map path content fs = Inr fs') =
      (\<exists>new. fs' = fs @ new \<and>
         list_all2 (\<lambda>l entry. \<exists>clsId. read_fields l = Some (fst entry, clsId) \<and>
                                        stoi clsId = Inr (snd entry))
                   (getline_all CHR 0x0A content) new)"
    unfolding load_map_def by (rule load_lines_Inr)
next
  have "\<And>clsId. stoi clsId = Inl err \<Longrightarrow> err = StdInvalidArgument \<or> err = StdOutOfRange"
    by (rule stoi_errors)
  then show "(load_map path content fs = Inl err) =
      (\<exists>i<length (getline_all CHR 0x0A content).
         (\<forall>k<i. \<exists>imgPath clsId label.
                   read_fields (getline_all CHR 0x0A content ! k) = Some (imgPath, clsId) \<and>
                   stoi clsId = Inr label) \<and>
         ((read_fields (getline_all CHR 0x0A content ! i) = None \<and>
           err = InvalidMapFormat path i) \<or>
          (\<exists>imgPath clsId.
              read_fields (getline_all CHR 0x0A content ! i) = Some (imgPath, clsId) \<and>
              stoi clsId = Inl err \<and> (err = StdInvalidArgument \<or> err = StdOutOfRange))))"
    unfolding load_map_def load_lines_Inl by auto
next
  fix l
  show "(read_fields l = None) =
          (l = [] \<or> drop 1 (dropWhile (\<lambda>c. c \<noteq> CHR 0x09) l) = [])"
    by (rule read_fields_None)
next
  fix imgPath clsId extra
  assume "CHR 0x09 \<notin> set imgPath \<and> CHR 0x09 \<notin> set clsId"
  then show "read_fields (imgPath @ CHR 0x09 # clsId @ CHR 0x09 # extra) = Some (imgPath, clsId)"
    by (simp add: read_fields_more)
qed

theorem load_map_result_witness:
  "load_map ''map.txt'' map_short [] = Inl (InvalidMapFormat ''map.txt'' 1)"
proof -
  have ls: "getline_all CHR 0x0A map_short = [''a.jpg'' @ [CHR 0x09] @ ''0'', ''b.jpg'']"
    by (simp add: map_short_def getline_def)
  have l0: "read_fields (''a.jpg'' @ [CHR 0x09] @ ''0'') = Some (''a.jpg'', ''0'')"
    and l1: "read_fields ''b.jpg'' = None"
    by (simp_all add: read_fields_def getline_def)
  have v0: "stoi ''0'' = Inr 0"
    by (simp add: stoi_def isspace_def isdigit_def digits_value_def)
  have "\<exists>i<length (getline_all CHR 0x0A map_short).
         (\<forall>k<i. \<exists>imgPath clsId label.
                   read_fields (getline_all CHR 0x0A map_short ! k) = Some (imgPath, clsId) \<and>
                   stoi clsId = Inr label) \<and>
         ((read_fields (getline_all CHR 0x0A map_short ! i) = None \<and>
           InvalidMapFormat ''map.txt'' 1 = InvalidMapFormat ''map.txt'' i) \<or>
          (\<exists>imgPath clsId.
              read_fields (getline_all CHR 0x0A map_short ! i) = Some (imgPath, clsId) \<and>
              stoi clsId = Inl (InvalidMapFormat ''map.txt'' 1) \<and>
              (InvalidMapFormat ''map.txt'' 1 = StdInvalidArgument \<or>
               InvalidMapFormat ''map.txt'' 1 = StdOutOfRange)))"
    unfolding ls using l0 l1 v0 by (intro exI [of _ 1]) simp
  then show ?thesis
    by (rule load_map_result [THEN conjunct2, THEN conjunct1, THEN iffD2])
qed

text \<open>
  The claim C5 as stated fails twice. A file whose first line has three fields and
  whose second line has the class id \<open>7up\<close> is loaded, with the labels 1 and 7. A file
  whose second line has the class id \<open>cat\<close> fails with the \<open>invalid_argument\<close> of
  \<open>std::stoi\<close>, not with the format error that names the line.
\<close>

theorem load_map_counterexample:
  "load_map ''map.txt'' map_extra [] = Inr [(''a.jpg'', 1), (''b.jpg'', 7)] \<and>
   load_map ''map.txt'' map_nonint [] = Inl StdInvalidArgument"
  by (simp add: load_map_def map_extra_def map_nonint_def getline_def parse_line_def
        read_fields_def stoi_def isspace_def isdigit_def digits_value_def)

subsection \<open>GetMinibatch\<close>

lemma copy_features_length:
  "copy_features featDim i pixels fb = Inr fb' \<Longrightarrow> length fb' = length fb"
  by (auto simp: copy_features_def split: if_splits)

lemma set_label_length:
  "set_label labDim i label lb = Inr lb' \<Longrightarrow> length lb' = length lb"
  by (auto simp: set_label_def Let_def split: if_splits)

text \<open>What one iteration of the loop changes: the transforms and the two buffers.\<close>

lemma process_sample_Inr:
  assumes "process_sample e i r = Inr r'"
  shows "\<exists>t1 t2 t3 pixels fb lb.
           r' = r\<lparr>m_crop := t1, m_scale := t2, m_mean := t3, m_featBuf := fb, m_labBuf := lb\<rparr> \<and>
           copy_features (m_featDim r) i pixels (m_featBuf r) = Inr fb \<and>
           set_label (m_labDim r) i (snd (files r ! (i + m_mbStart r))) (m_labBuf r) = Inr lb"
proof -
  let ?p = "files r ! (i + m_mbStart r)"
  obtain t1 img1 where a1: "CropTransform_Apply e (m_crop r) (imread e (fst ?p)) = Inr (t1, img1)"
    using assms by (cases "CropTransform_Apply e (m_crop r) (imread e (fst ?p))")
      (auto simp: process_sample_def Let_def)
  obtain t2 img2 where a2: "ScaleTransform_Apply e (m_scale r) img1 = Inr (t2, img2)"
    using assms a1 by (cases "ScaleTransform_Apply e (m_scale r) img1")
      (auto simp: process_sample_def Let_def)
  obtain t3 img3 where a3: "MeanTransform_Apply e (m_mean r) img2 = Inr (t3, img3)"
    using assms a1 a2 by (cases "MeanTransform_Apply e (m_mean r) img2")
      (auto simp: process_sample_def Let_def)
  obtain fb where a4: "copy_features (m_featDim r) i (mdata img3) (m_featBuf r) = Inr fb"
    using assms a1 a2 a3 by (cases "copy_features (m_featDim r) i (mdata img3) (m_featBuf r)")
      (auto simp: process_sample_def Let_def)
  obtain lb where a5: "set_label (m_labDim r) i (snd ?p) (m_labBuf r) = Inr lb"
    using assms a1 a2 a3 a4 by (cases "set_label (m_labDim r) i (snd ?p) (m_labBuf r)")
      (auto simp: process_sample_def Let_def)
  have "r' = r\<lparr>m_crop := t1, m_scale := t2, m_mean := t3, m_featBuf := fb, m_labBuf := lb\<rparr>"
    using assms a1 a2 a3 a4 a5 by (simp add: process_sample_def Let_def)
  with a4 a5 show ?thesis by blast
qed

lemma process_sample_frame:
  assumes "process_sample e i r = Inr r'"
  shows "files r' = files r" and "m_mbStart r' = m_mbStart r" and "m_mbSize r' = m_mbSize r"
    and "m_featDim r' = m_featDim r" and "m_labDim r' = m_labDim r"
    and "m_featName r' = m_featName r" and "m_labName r' = m_labName r"
    and "m_epochStart r' = m_epochStart r" and "m_epochSize r' = m_epochSize r"
    and "length (m_featBuf r') = length (m_featBuf r)"
    and "length (m_labBuf r') = length (m_labBuf r)"
  using process_sample_Inr [OF assms]
  by (auto dest: copy_features_length set_label_length)

lemma process_all_frame:
  assumes "process_all e idxs r = Inr r'"
  shows "files r' = files r \<and> m_mbStart r' = m_mbStart r \<and> m_mbSize r' = m_mbSize r \<and>
         m_featDim r' = m_featDim r \<and> m_labDim r' = m_labDim r \<and>
         m_featName r' = m_featName r \<and> m_labName r' = m_labName r \<and>
         m_epochStart r' = m_epochStart r \<and> m_epochSize r' = m_epochSize r \<and>
         length (m_featBuf r') = length (m_featBuf r) \<and>
         length (m_labBuf r') = length (m_labBuf r)"
  using assms
proof (induction idxs arbitrary: r)
  case Nil
  then show ?case by simp
next
  case (Cons i rest)
  then obtain r1 where s: "process_sample e i r = Inr r1" and a: "process_all e rest r1 = Inr r'"
    by (cases "process_sample e i r") auto
  from Cons.IH [OF a] process_sample_frame [OF s] show ?case by simp
qed


lemma batch_le_mbSize: "mbLim r - m_mbStart r \<le> m_mbSize r"
  unfolding mbLim_def by auto

text \<open>\<open>StartMinibatchLoop\<close> sizes the two buffers for \<open>mbSize\<close> samples.\<close>

lemma StartMinibatchLoop_buffers:
  assumes "StartMinibatchLoop e mbSize epoch requestedEpochSamples r = Inr r'"
  shows "length (m_featBuf r') = m_mbSize r' * m_featDim r' \<and>
         length (m_labBuf r') = m_mbSize r' * m_labDim r' \<and>
         (debug e \<longrightarrow> m_mbSize r' > 0)"
proof -
  obtain ys g' where sh: "std_shuffle (mt_out e) (files r) (m_rng r) = Inr (ys, g')"
    using std_shuffle_total by blast
  show ?thesis
    using assms sh
    by (auto simp: StartMinibatchLoop_def Let_def resize_vec_def split: if_splits)
qed

lemma SetValue_ok:
  "nr * nc \<le> length buf \<Longrightarrow>
     SetValue nr nc buf = Inr \<lparr>numRows = nr, numCols = nc, mvalues = take (nr * nc) buf\<rparr>"
  by (simp add: SetValue_def)

text \<open>\<open>GetMinibatch\<close> once its assertions and the lookup of the destinations have passed.\<close>

lemma GetMinibatch_unfold:
  assumes "map_of ms (m_featName r) \<noteq> None" and "map_of ms (m_labName r) \<noteq> None"
    and "debug e \<longrightarrow> m_mbSize r > 0"
  shows "GetMinibatch e ms r =
     (if exhausted r then Inr (False, r, ms)
      else
        let lim = mbLim r;
            r1 = r\<lparr>m_labBuf := replicate (length (m_labBuf r)) 0\<rparr>
        in
        (case process_all e [0 ..< lim - m_mbStart r] r1 of
           Inl err \<Rightarrow> Inl err
         | Inr r2 \<Rightarrow>
             let mbSize = lim - m_mbStart r in
             (case SetValue (m_featDim r2) mbSize (m_featBuf r2) of
                Inl err \<Rightarrow> Inl err
              | Inr features \<Rightarrow>
             (case SetValue (m_labDim r2) mbSize (m_labBuf r2) of
                Inl err \<Rightarrow> Inl err
              | Inr labels \<Rightarrow>
                  Inr (True,
                       r2\<lparr>m_pMBLayout := (mbSize, 1, False), m_mbStart := lim\<rparr>,
                       set_matrix (m_labName r2) labels
                         (set_matrix (m_featName r2) features ms))))))"
proof -
  have ne: "length ms > 0" using assms(1) by (cases ms) simp_all
  have c1: "(debug e \<and> \<not> (length ms > 0 \<and> map_of ms (m_featName r) \<noteq> None \<and> m_mbSize r > 0))
             = False"
    using assms(1,3) ne by blast
  have c2: "(map_of ms (m_featName r) = None \<or> map_of ms (m_labName r) = None) = False"
    using assms(1,2) by simp
  show ?thesis
    by (simp only: GetMinibatch_def c1 c2 if_False)
qed

text \<open>With buffers sized for \<open>mbSize\<close> samples the hand-over to the destinations succeeds.\<close>

lemma GetMinibatch_processed:
  assumes "map_of ms (m_featName r) \<noteq> None" and "map_of ms (m_labName r) \<noteq> None"
    and "debug e \<longrightarrow> m_mbSize r > 0"
    and "length (m_featBuf r) = m_mbSize r * m_featDim r"
    and "length (m_labBuf r) = m_mbSize r * m_labDim r"
    and "\<not> exhausted r"
    and "process_all e [0 ..< mbLim r - m_mbStart r]
           (r\<lparr>m_labBuf := replicate (length (m_labBuf r)) 0\<rparr>) = Inr r2"
  shows "\<exists>r' ms'. GetMinibatch e ms r = Inr (True, r', ms') \<and> m_mbStart r' = mbLim r"
proof -
  let ?n = "mbLim r - m_mbStart r"
  from process_all_frame [OF assms(7)]
  have fd: "m_featDim r2 = m_featDim r" and ld: "m_labDim r2 = m_labDim r"
    and fl: "length (m_featBuf r2) = length (m_featBuf r)"
    and ll: "length (m_labBuf r2) = length (m_labBuf r)"
    by simp_all
  have "m_featDim r * ?n \<le> m_mbSize r * m_featDim r"
    and "m_labDim r * ?n \<le> m_mbSize r * m_labDim r"
    using batch_le_mbSize [of r] by (simp_all add: mult.commute)
  then have sf: "SetValue (m_featDim r2) ?n (m_featBuf r2) =
        Inr \<lparr>numRows = m_featDim r2, numCols = ?n,
             mvalues = take (m_featDim r2 * ?n) (m_featBuf r2)\<rparr>"
    and sl: "SetValue (m_labDim r2) ?n (m_labBuf r2) =
        Inr \<lparr>numRows = m_labDim r2, numCols = ?n,
             mvalues = take (m_labDim r2 * ?n) (m_labBuf r2)\<rparr>"
    using assms(4,5) fd ld fl ll by (simp_all add: SetValue_ok)
  show ?thesis
    using assms(6,7) sf sl
    by (simp add: GetMinibatch_unfold [OF assms(1,2,3)] Let_def)
qed

text \<open>
  A call of \<open>GetMinibatch\<close> that returns keeps the manifest, the dimensions and the
  sizes of the buffers: the state it leaves is again a state in which the buffers are
  sized for \<open>mbSize\<close> samples.
\<close>

lemma GetMinibatch_keeps_buffers:
  assumes "GetMinibatch e ms r = Inr (b, r', ms')"
  shows "files r' = files r \<and> m_mbSize r' = m_mbSize r \<and>
         m_featDim r' = m_featDim r \<and> m_labDim r' = m_labDim r \<and>
         m_featName r' = m_featName r \<and> m_labName r' = m_labName r \<and>
         length (m_featBuf r') = length (m_featBuf r) \<and>
         length (m_labBuf r') = length (m_labBuf r)"
proof -
  let ?r1 = "r\<lparr>m_labBuf := replicate (length (m_labBuf r)) 0\<rparr>"
  let ?n = "mbLim r - m_mbStart r"
  have d1: "map_of ms (m_featName r) \<noteq> None" and d2: "map_of ms (m_labName r) \<noteq> None"
    and d3: "debug e \<longrightarrow> m_mbSize r > 0"
    using assms by (auto simp: GetMinibatch_def split: if_splits)
  note eq = GetMinibatch_unfold [OF d1 d2 d3]
  show ?thesis
  proof (cases "exhausted r")
    case True
    with assms show ?thesis by (simp add: eq)
  next
    case False
    obtain r2 where p: "process_all e [0 ..< ?n] ?r1 = Inr r2"
      using assms False unfolding eq
      by (cases "process_all e [0 ..< ?n] ?r1") (auto simp: Let_def)
    obtain features where sf: "SetValue (m_featDim r2) ?n (m_featBuf r2) = Inr features"
      using assms False p unfolding eq
      by (cases "SetValue (m_featDim r2) ?n (m_featBuf r2)") (auto simp: Let_def)
    obtain labels where sl: "SetValue (m_labDim r2) ?n (m_labBuf r2) = Inr labels"
      using assms False p sf unfolding eq
      by (cases "SetValue (m_labDim r2) ?n (m_labBuf r2)") (auto simp: Let_def)
    have "r' = r2\<lparr>m_pMBLayout := (?n, 1, False), m_mbStart := mbLim r\<rparr>"
      using assms False p sf sl unfolding eq by (simp add: Let_def)
    with process_all_frame [OF p] show ?thesis by simp
  qed
qed


lemma process_all_reader1:
  "\<exists>r2. process_all env0 [0 ..< 2] (reader1\<lparr>m_labBuf := replicate 4 0\<rparr>) = Inr r2"
  by (simp add: upt_rec numeral_eq_Suc)
    (simp add: process_sample_def reader1_def env0_def Let_def
      CropTransform_Apply_def pop_or_create_def draw_ratio_def GetCropRect_def
      trunc_int_def tdiv_def mat_roi_def img0_def ScaleTransform_Apply_def UniIntT_def mt_next_def
      static_cast_int_def cv_resize_def MeanTransform_Apply_def copy_features_def set_label_def
      make_mt19937_def push_def)



subsection \<open>The label buffer\<close>

lemma map_of_set_matrix:
  "map_of (set_matrix name m ms) k =
     (if k = name \<and> map_of ms k \<noteq> None then Some m else map_of ms k)"
  by (induction ms) (auto simp: set_matrix_def)

text \<open>What a call that returns true has done.\<close>

lemma GetMinibatch_True:
  assumes "GetMinibatch e ms r = Inr (True, r', ms')"
  shows "\<exists>r2. process_all e [0 ..< mbLim r - m_mbStart r]
                 (r\<lparr>m_labBuf := replicate (length (m_labBuf r)) 0\<rparr>) = Inr r2 \<and>
              m_labBuf r' = m_labBuf r2 \<and>
              m_labDim r * (mbLim r - m_mbStart r) \<le> length (m_labBuf r2) \<and>
              map_of ms' (m_labName r) =
                Some \<lparr>numRows = m_labDim r, numCols = mbLim r - m_mbStart r,
                      mvalues = take (m_labDim r * (mbLim r - m_mbStart r)) (m_labBuf r2)\<rparr>"
proof -
  let ?r1 = "r\<lparr>m_labBuf := replicate (length (m_labBuf r)) 0\<rparr>"
  let ?n = "mbLim r - m_mbStart r"
  have d1: "map_of ms (m_featName r) \<noteq> None" and d2: "map_of ms (m_labName r) \<noteq> None"
    and nx: "\<not> exhausted r"
    using assms by (auto simp: GetMinibatch_def split: if_splits)
  have c1: "(debug e \<and> \<not> (length ms > 0 \<and> map_of ms (m_featName r) \<noteq> None \<and> m_mbSize r > 0))
             = False"
    using assms by (auto simp: GetMinibatch_def split: if_splits)
  have c2: "(map_of ms (m_featName r) = None \<or> map_of ms (m_labName r) = None) = False"
    using d1 d2 by simp
  have c3: "exhausted r = False" using nx by simp
  have eq: "GetMinibatch e ms r =
        (let lim = mbLim r; r1 = ?r1 in
        (case process_all e [0 ..< lim - m_mbStart r] r1 of
           Inl err \<Rightarrow> Inl err
         | Inr r2 \<Rightarrow>
             let mbSize = lim - m_mbStart r in
             (case SetValue (m_featDim r2) mbSize (m_featBuf r2) of
                Inl err \<Rightarrow> Inl err
              | Inr features \<Rightarrow>
             (case SetValue (m_labDim r2) mbSize (m_labBuf r2) of
                Inl err \<Rightarrow> Inl err
              | Inr labels \<Rightarrow>
                  Inr (True,
                       r2\<lparr>m_pMBLayout := (mbSize, 1, False), m_mbStart := lim\<rparr>,
                       set_matrix (m_labName r2) labels
                         (set_matrix (m_featName r2) features ms))))))"
    by (simp only: GetMinibatch_def c1 c2 c3 if_False)
  obtain r2 where p: "process_all e [0 ..< ?n] ?r1 = Inr r2"
    using assms unfolding eq by (cases "process_all e [0 ..< ?n] ?r1") (auto simp: Let_def)
  from process_all_frame [OF p]
  have ld: "m_labDim r2 = m_labDim r" and ln: "m_labName r2 = m_labName r" by simp_all
  obtain features where sf: "SetValue (m_featDim r2) ?n (m_featBuf r2) = Inr features"
    using assms p unfolding eq
    by (cases "SetValue (m_featDim r2) ?n (m_featBuf r2)") (auto simp: Let_def)
  obtain labels where sl: "SetValue (m_labDim r2) ?n (m_labBuf r2) = Inr labels"
    using assms p sf unfolding eq
    by (cases "SetValue (m_labDim r2) ?n (m_labBuf r2)") (auto simp: Let_def)
  have res: "r' = r2\<lparr>m_pMBLayout := (?n, 1, False), m_mbStart := mbLim r\<rparr>"
    and ms': "ms' = set_matrix (m_labName r2) labels (set_matrix (m_featName r2) features ms)"
    using assms p sf sl unfolding eq by (simp_all add: Let_def)
  have le: "m_labDim r * ?n \<le> length (m_labBuf r2)"
    and lab: "labels = \<lparr>numRows = m_labDim r, numCols = ?n,
                        mvalues = take (m_labDim r * ?n) (m_labBuf r2)\<rparr>"
    using sl ld by (auto simp: SetValue_def split: if_splits)
  have "map_of ms' (m_labName r) = Some labels"
    using d2 by (simp add: ms' ln map_of_set_matrix)
  with p res le lab show ?thesis by simp
qed

text \<open>The loop sets, for every index it runs through, one entry of the label buffer.\<close>

lemma process_all_labBuf:
  assumes "process_all e idxs r = Inr r'"
    and "\<forall>i\<in>set idxs. 0 \<le> snd (files r ! (i + m_mbStart r))"
  shows "m_labBuf r' =
           foldl (\<lambda>b i. b[m_labDim r * i + nat (snd (files r ! (i + m_mbStart r))) := 1])
                 (m_labBuf r) idxs"
  using assms
proof (induction idxs arbitrary: r)
  case Nil
  then show ?case by simp
next
  case (Cons i rest)
  obtain r1 where s: "process_sample e i r = Inr r1" and a: "process_all e rest r1 = Inr r'"
    using Cons.prems(1) by (cases "process_sample e i r") auto
  have fr: "files r1 = files r" "m_mbStart r1 = m_mbStart r" "m_labDim r1 = m_labDim r"
    using process_sample_frame [OF s] by simp_all
  have nonneg: "0 \<le> snd (files r ! (i + m_mbStart r))" using Cons.prems(2) by simp
  obtain lb where lb: "m_labBuf r1 = lb"
    and sl: "set_label (m_labDim r) i (snd (files r ! (i + m_mbStart r))) (m_labBuf r) = Inr lb"
    using process_sample_Inr [OF s] by auto
  have "lb = (m_labBuf r)[nat (int (m_labDim r * i) + snd (files r ! (i + m_mbStart r))) := 1]"
    using sl by (auto simp: set_label_def Let_def split: if_splits)
  moreover have "nat (int (m_labDim r * i) + snd (files r ! (i + m_mbStart r)))
                   = m_labDim r * i + nat (snd (files r ! (i + m_mbStart r)))"
  proof -
    have "nat (int (m_labDim r * i) + snd (files r ! (i + m_mbStart r)))
            = nat (int (m_labDim r * i)) + nat (snd (files r ! (i + m_mbStart r)))"
      using nonneg by (intro nat_add_distrib) simp_all
    then show ?thesis by (simp only: nat_int)
  qed
  ultimately have step: "m_labBuf r1 =
      (m_labBuf r)[m_labDim r * i + nat (snd (files r ! (i + m_mbStart r))) := 1]"
    using lb by simp
  have "\<forall>i\<in>set rest. 0 \<le> snd (files r1 ! (i + m_mbStart r1))"
    using Cons.prems(2) fr by simp
  from Cons.IH [OF a this] show ?case
    by (simp add: fr step)
qed

lemma foldl_update_length:
  "length (foldl (\<lambda>b i. b[f i := v]) b idxs) = length b"
  by (induction idxs arbitrary: b) simp_all

lemma foldl_update_nth:
  "j < length b \<Longrightarrow>
     foldl (\<lambda>b i. b[f i := v]) b idxs ! j = (if j \<in> f ` set idxs then v else b ! j)"
proof (induction idxs arbitrary: b)
  case Nil
  then show ?case by simp
next
  case (Cons i rest)
  have "j < length (b[f i := v])" using Cons.prems by simp
  from Cons.IH [OF this] Cons.prems show ?case
    by (auto simp: nth_list_update)
qed

lemma row_index_unique:
  fixes d :: nat
  assumes "d * i' + r' = d * i + k" and "r' < d" and "k < d"
  shows "i' = i \<and> r' = k"
proof -
  have "(d * i' + r') div d = i'" and "(d * i + k) div d = i"
    using assms(2,3) by simp_all
  then have "i' = i" using assms(1) by simp
  with assms(1) show ?thesis by simp
qed

lemma one_hot_rows:
  fixes d n :: nat and l :: "nat \<Rightarrow> nat" and L :: "real list"
  assumes len: "length L = d * n"
    and lab: "\<forall>i<n. l i < d"
    and val: "\<forall>j<d * n. L ! j = (if j \<in> (\<lambda>i. d * i + l i) ` {0 ..< n} then 1 else 0)"
  shows "(\<forall>i<n. \<forall>k<d. L ! (d * i + k) = (if k = l i then 1 else 0)) \<and> sum_list L = real n"
proof -
  have row: "L ! (d * i + k) = (if k = l i then 1 else 0)" if "i < n" and "k < d" for i k
  proof -
    have "d * i + k < d * i + d" using that by simp
    also have "\<dots> = d * Suc i" by simp
    also have "\<dots> \<le> d * n" using that by (intro mult_le_mono2) simp
    finally have j: "d * i + k < d * n" .
    have "(d * i + k \<in> (\<lambda>i. d * i + l i) ` {0 ..< n}) = (k = l i)"
    proof
      assume "d * i + k \<in> (\<lambda>i. d * i + l i) ` {0 ..< n}"
      then obtain i' where "i' < n" and "d * i' + l i' = d * i + k" by auto
      moreover have "l i' < d" using lab \<open>i' < n\<close> by simp
      ultimately have "i' = i \<and> l i' = k" using that row_index_unique by blast
      then show "k = l i" by auto
    next
      assume "k = l i"
      then show "d * i + k \<in> (\<lambda>i. d * i + l i) ` {0 ..< n}" using that by auto
    qed
    with val j show ?thesis by simp
  qed
  have inner: "sum ((!) L) {m * d ..< m * d + d} = 1" if "m < n" for m
  proof -
    have "sum ((!) L) {m * d ..< m * d + d} = sum ((!) L) {0 + m * d ..< d + m * d}"
      by (simp add: add.commute)
    also have "\<dots> = (\<Sum>k = 0 ..< d. L ! (k + m * d))"
      by (rule sum.shift_bounds_nat_ivl)
    also have "\<dots> = (\<Sum>k = 0 ..< d. if k = l m then 1 else 0)"
      using row [OF that] by (intro sum.cong) (simp_all add: add.commute mult.commute)
    also have "\<dots> = 1"
      using lab that by simp
    finally show ?thesis .
  qed
  have "sum_list L = sum ((!) L) {..< n * d}"
    by (simp add: sum_list_sum_nth len atLeast0LessThan mult.commute)
  also have "\<dots> = (\<Sum>m<n. sum ((!) L) {m * d ..< m * d + d})"
    by (rule sum.nat_group [symmetric])
  also have "\<dots> = (\<Sum>m<n. 1)"
    using inner by (intro sum.cong) simp_all
  also have "\<dots> = real n" by simp
  finally have "sum_list L = real n" .
  with row show ?thesis by blast
qed

text \<open>
  C2. When \<open>GetMinibatch\<close> returns true and every label of the manifest satisfies
  \<open>0 \<le> label < labelDim\<close>, the label matrix handed to the destination holds the first
  \<open>labelDim * n\<close> entries of the label buffer, \<open>n = mbLim - mbStart\<close> being the actual
  batch size; the row of every sample \<open>i < n\<close> is one-hot, with the 1 at the index
  \<open>labelDim * i + label\<close>; and the entries handed off sum up to \<open>n\<close>.
\<close>

theorem label_buffer_one_hot:
  assumes "GetMinibatch e ms r = Inr (True, r', ms')"
    and "\<forall>p\<in>set (files r). 0 \<le> snd p \<and> snd p < int (m_labDim r)"
  shows "\<exists>labels.
           map_of ms' (m_labName r) = Some labels \<and>
           numRows labels = m_labDim r \<and> numCols labels = mbLim r - m_mbStart r \<and>
           mvalues labels = take (m_labDim r * (mbLim r - m_mbStart r)) (m_labBuf r') \<and>
           (\<forall>i<mbLim r - m_mbStart r. \<forall>k<m_labDim r.
               mvalues labels ! (m_labDim r * i + k) =
                 (if int k = snd (files r ! (m_mbStart r + i)) then 1 else 0)) \<and>
           sum_list (mvalues labels) = real (mbLim r - m_mbStart r)"
proof -
  let ?n = "mbLim r - m_mbStart r"
  let ?d = "m_labDim r"
  let ?r1 = "r\<lparr>m_labBuf := replicate (length (m_labBuf r)) 0\<rparr>"
  let ?l = "\<lambda>i. nat (snd (files r ! (i + m_mbStart r)))"
  let ?f = "\<lambda>i. ?d * i + ?l i"
  obtain r2 where p: "process_all e [0 ..< ?n] ?r1 = Inr r2"
    and b: "m_labBuf r' = m_labBuf r2"
    and le: "?d * ?n \<le> length (m_labBuf r2)"
    and m: "map_of ms' (m_labName r) =
              Some \<lparr>numRows = ?d, numCols = ?n, mvalues = take (?d * ?n) (m_labBuf r2)\<rparr>"
    using GetMinibatch_True [OF assms(1)] by blast
  have inr: "0 \<le> snd (files r ! (i + m_mbStart r)) \<and> snd (files r ! (i + m_mbStart r)) < int ?d"
    if "i < ?n" for i
  proof -
    have "mbLim r \<le> length (files r)" by (simp add: mbLim_def)
    with that have "i + m_mbStart r < length (files r)" by simp
    then have "files r ! (i + m_mbStart r) \<in> set (files r)" by (rule nth_mem)
    with assms(2) show ?thesis by blast
  qed
  have nonneg: "\<forall>i\<in>set [0 ..< ?n]. 0 \<le> snd (files ?r1 ! (i + m_mbStart ?r1))"
    using inr by simp
  have buf: "m_labBuf r2 = foldl (\<lambda>b i. b[?f i := 1]) (replicate (length (m_labBuf r)) 0) [0 ..< ?n]"
    using process_all_labBuf [OF p nonneg] by simp
  have blen: "length (m_labBuf r2) = length (m_labBuf r)"
    by (simp add: buf foldl_update_length)
  let ?L = "take (?d * ?n) (m_labBuf r2)"
  have len: "length ?L = ?d * ?n" using le by simp
  have lab: "\<forall>i<?n. ?l i < ?d"
  proof (intro allI impI)
    fix i assume "i < ?n"
    from inr [OF this] show "?l i < ?d" by linarith
  qed
  have val: "\<forall>j<?d * ?n. ?L ! j = (if j \<in> ?f ` {0 ..< ?n} then 1 else 0)"
  proof (intro allI impI)
    fix j assume j: "j < ?d * ?n"
    then have jl: "j < length (replicate (length (m_labBuf r)) (0::real))"
      using le blen by simp
    have "?L ! j = m_labBuf r2 ! j" using j by simp
    also have "\<dots> = (if j \<in> ?f ` set [0 ..< ?n] then 1
                     else replicate (length (m_labBuf r)) 0 ! j)"
      unfolding buf by (rule foldl_update_nth [OF jl])
    also have "\<dots> = (if j \<in> ?f ` {0 ..< ?n} then 1 else 0)"
      using jl by simp
    finally show "?L ! j = (if j \<in> ?f ` {0 ..< ?n} then 1 else 0)" .
  qed
  from one_hot_rows [OF len lab val]
  have rows: "\<forall>i<?n. \<forall>k<?d. ?L ! (?d * i + k) = (if k = ?l i then 1 else 0)"
    and total: "sum_list ?L = real ?n"
    by simp_all
  have rows': "\<forall>i<?n. \<forall>k<?d. ?L ! (?d * i + k) =
                 (if int k = snd (files r ! (m_mbStart r + i)) then 1 else 0)"
  proof (intro allI impI)
    fix i k assume i: "i < ?n" and k: "k < ?d"
    have "(k = ?l i) = (int k = snd (files r ! (m_mbStart r + i)))"
      using inr [OF i] by (auto simp: add.commute)
    with rows i k show "?L ! (?d * i + k) =
                 (if int k = snd (files r ! (m_mbStart r + i)) then 1 else 0)"
      by simp
  qed
  show ?thesis
    using m b rows' total by simp
qed

lemma GetMinibatch_reader1:
  "\<exists>r' ms'. GetMinibatch env0 ms0 reader1 = Inr (True, r', ms')"
proof -
  have h1: "map_of ms0 (m_featName reader1) \<noteq> None"
    and h2: "map_of ms0 (m_labName reader1) \<noteq> None"
    and h3: "debug env0 \<longrightarrow> m_mbSize reader1 > 0"
    and h4: "length (m_featBuf reader1) = m_mbSize reader1 * m_featDim reader1"
    and h5: "length (m_labBuf reader1) = m_mbSize reader1 * m_labDim reader1"
    by (simp_all add: ms0_def reader1_def env0_def)
  have n: "\<not> exhausted reader1" and lim: "mbLim reader1 - m_mbStart reader1 = 2"
    and len: "length (m_labBuf reader1) = 4"
    by (simp_all add: exhausted_def mbLim_def reader1_def)
  obtain r2 where "process_all env0 [0 ..< 2] (reader1\<lparr>m_labBuf := replicate 4 0\<rparr>) = Inr r2"
    using process_all_reader1 by blast
  then have p: "process_all env0 [0 ..< mbLim reader1 - m_mbStart reader1]
                  (reader1\<lparr>m_labBuf := replicate (length (m_labBuf reader1)) 0\<rparr>) = Inr r2"
    by (simp only: lim len)
  from GetMinibatch_processed [OF h1 h2 h3 h4 h5 n p] show ?thesis by blast
qed

theorem label_buffer_one_hot_witness:
  "list_all (\<lambda>p. 0 \<le> snd p \<and> snd p < int (m_labDim reader1)) (files reader1) \<and>
   (\<exists>r' ms' labels.
      GetMinibatch env0 ms0 reader1 = Inr (True, r', ms') \<and>
      map_of ms' ''labels'' = Some labels \<and> numRows labels = 2 \<and> numCols labels = 2 \<and>
      mvalues labels ! 0 = 1 \<and> mvalues labels ! 1 = 0 \<and>
      mvalues labels ! 2 = 0 \<and> mvalues labels ! 3 = 1 \<and>
      sum_list (mvalues labels) = 2)"
proof -
  obtain r' ms' where g: "GetMinibatch env0 ms0 reader1 = Inr (True, r', ms')"
    using GetMinibatch_reader1 by blast
  have h: "\<forall>p\<in>set (files reader1). 0 \<le> snd p \<and> snd p < int (m_labDim reader1)"
    by (simp add: reader1_def)
  have d: "m_labDim reader1 = 2" and n: "mbLim reader1 = 2"
    and s: "m_mbStart reader1 = 0" and nm: "m_labName reader1 = ''labels''"
    and f0: "snd (files reader1 ! 0) = 0" and f1: "snd (files reader1 ! 1) = 1"
    by (simp_all add: reader1_def mbLim_def)
  obtain labels where m: "map_of ms' ''labels'' = Some labels"
    and nr: "numRows labels = 2" and nc: "numCols labels = 2"
    and rows: "\<forall>i<2. \<forall>k<2. mvalues labels ! (2 * i + k) =
                 (if int k = snd (files reader1 ! (0 + i)) then 1 else 0)"
    and total: "sum_list (mvalues labels) = real 2"
    using label_buffer_one_hot [OF g h] unfolding d n s nm diff_zero by blast
  have v0: "mvalues labels ! 0 = 1"
    using rows [rule_format, of 0 0] f0 by simp
  have v1: "mvalues labels ! 1 = 0"
    using rows [rule_format, of 0 1] f0 by simp
  have v2: "mvalues labels ! 2 = 0"
    using rows [rule_format, of 1 0] f1 by simp
  have v3: "mvalues labels ! 3 = 1"
    using rows [rule_format, of 1 1] f1 by simp
  have "\<exists>r' ms' labels.
      GetMinibatch env0 ms0 reader1 = Inr (True, r', ms') \<and>
      map_of ms' ''labels'' = Some labels \<and> numRows labels = 2 \<and> numCols labels = 2 \<and>
      mvalues labels ! 0 = 1 \<and> mvalues labels ! 1 = 0 \<and>
      mvalues labels ! 2 = 0 \<and> mvalues labels ! 3 = 1 \<and>
      sum_list (mvalues labels) = 2"
    using g m nr nc total v0 v1 v2 v3
    by (intro exI [of _ r'] exI [of _ ms'] exI [of _ labels]) simp
  moreover have "list_all (\<lambda>p. 0 \<le> snd p \<and> snd p < int (m_labDim reader1)) (files reader1)"
    using h by (simp only: list_all_iff)
  ultimately show ?thesis by (intro conjI)
qed

end
